theory Spec2Isabelle
  imports Main
begin

section \<open>The agent script \<^verbatim>\<open>adk_test/agent.py\<close>\<close>

text \<open>
  The script is one Python module.  At import time it reads a credential from the
  environment, declares constants, embeds an OpenAPI document as a string literal, builds
  two toolsets and one agent.  Run as a program it then creates a session and a runner
  and hands six literal queries to the runner, one after the other, printing fields of
  the events each run yields.

  Everything the script obtains from outside is a field of the record \<open>world\<close>; every
  effect it has on the outside is an \<open>action\<close> of the trace it returns.  Strings are
  lists of characters; the source's ASCII text is written as it stands, the two accented
  letters of the error message by their code points, and the lines that start with an
  emoji are constructors of \<open>line\<close> carrying the fields that are printed.
\<close>

subsection \<open>Exceptions\<close>

text \<open>
  \<open>NotException\<close> stands for the classes that derive from \<open>BaseException\<close> only
  (\<open>KeyboardInterrupt\<close>, \<open>SystemExit\<close>, \<open>asyncio.CancelledError\<close>): a clause
  \<^verbatim>\<open>except Exception\<close> does not catch them.
\<close>

datatype exc_class = ValueError | AttributeError | RuntimeError | OtherException | NotException

datatype exc = Exc (exc_class: exc_class) (exc_str: string)

definition isinstance_Exception :: "exc \<Rightarrow> bool" where
  "isinstance_Exception e = (exc_class e \<noteq> NotException)"

definition isinstance_RuntimeError :: "exc \<Rightarrow> bool" where
  "isinstance_RuntimeError e = (exc_class e = RuntimeError)"

subsection \<open>Objects of the agent framework\<close>

datatype part = Part (part_text: "string option")

datatype content = Content (content_role: string) (content_parts: "part list option")

datatype function_call = FunctionCall (fc_name: string) (fc_args: string)

datatype function_response = FunctionResponse (fr_name: string)

datatype event = Event
  (get_function_calls: "function_call list")
  (get_function_responses: "function_response list")
  (is_final_response: bool)
  (event_content: "content option")

text \<open>
  One call of \<^verbatim>\<open>runner.run_async\<close> gives an asynchronous generator.  The loop over
  it sees finitely many events and then one of three things: the generator is exhausted,
  it raises, or the awaited next event never comes.
\<close>

datatype ending = Exhausted | Raises exc | Hangs

datatype response = Response (events: "event list") (ending: ending)

datatype toolset =
    OpenAPIToolset (spec_str: string) (spec_str_type: string)
  | MCPToolset (command: string) (args: "string list")

datatype agent = LlmAgent
  (agent_name: string) (agent_model: string) (agent_tools: "toolset list")
  (agent_instruction: string) (agent_description: string)

datatype obj =
    ToolsetObj toolset
  | AgentObj agent
  | SessionServiceObj
  | RunnerObj agent string

subsection \<open>The outside world and the trace\<close>

text \<open>
  \<open>environ\<close> is \<^verbatim>\<open>os.environ\<close> as \<^verbatim>\<open>os.getenv\<close> sees it, that is once
  \<^verbatim>\<open>load_dotenv()\<close> has run.  \<open>run_async w k\<close> is what the runner answers to
  the call number \<open>k\<close> (counted from 0) of \<^verbatim>\<open>run_async\<close>.
\<close>

record world =
  environ :: "string \<rightharpoonup> string"
  uuid4 :: string
  module_file :: string
  abspath :: "string \<Rightarrow> string"
  dirname :: "string \<Rightarrow> string"
  running_loop :: bool
  run_async :: "nat \<Rightarrow> string \<Rightarrow> string \<Rightarrow> content \<Rightarrow> response"

datatype line =
    Text string
  | AgentActionLine string string
  | ToolResponseLine string
  | FinalResponseLine string
  | ErrorLine string
  | ExecutingLine
  | RunningLoopLine
  | FinishedLine

datatype action =
    LoadDotenv
  | Getenv string
  | Setenv string string
  | Construct obj
  | CreateSession string string string
  | RunAsync string string content
  | Receive event
  | Print line
  | PrintExc

text \<open>
  A piece of the script, once run, has left a trace and has returned, or let an
  exception out, or is blocked for ever in an \<^verbatim>\<open>await\<close>.
\<close>

datatype outcome = Returned | Propagated exc | Blocked

type_synonym run = "action list \<times> outcome"

definition seq :: "run \<Rightarrow> run \<Rightarrow> run" where
  "seq a b = (case snd a of Returned \<Rightarrow> (fst a @ fst b, snd b) | _ \<Rightarrow> a)"

fun seq_all :: "run list \<Rightarrow> run" where
  "seq_all [] = ([], Returned)"
| "seq_all (r # rs) = seq r (seq_all rs)"

definition print :: "string \<Rightarrow> run" where
  "print s = ([Print (Text s)], Returned)"

subsection \<open>Constants\<close>

definition APP_NAME :: string where
  "APP_NAME = ''combined_openapi_mcp_app''"

definition USER_ID :: string where
  "USER_ID = ''user_combined_1''"

definition SESSION_ID :: "world \<Rightarrow> string" where
  "SESSION_ID w = ''session_combined_'' @ uuid4 w"

definition AGENT_NAME :: string where
  "AGENT_NAME = ''combined_assistant_agent''"

definition GEMINI_MODEL :: string where
  "GEMINI_MODEL = ''gemini-2.5-flash''"

text \<open>\<^verbatim>\<open>os.path.join\<close> of two components, as \<^verbatim>\<open>posixpath\<close> has it.\<close>

definition os_path_join :: "string \<Rightarrow> string \<Rightarrow> string" where
  "os_path_join a b =
     (case b of
        [] \<Rightarrow> (if a = [] \<or> last a = CHR ''/'' then a else a @ ''/'')
      | c # _ \<Rightarrow>
          if c = CHR ''/'' then b
          else if a = [] \<or> last a = CHR ''/'' then a @ b
          else a @ ''/'' @ b)"

definition TARGET_FOLDER_PATH :: "world \<Rightarrow> string" where
  "TARGET_FOLDER_PATH w =
     os_path_join (dirname w (abspath w (module_file w)))
       ''/home/cetec/AIProjects/adk_openapi/adk_test''"

subsection \<open>The embedded OpenAPI document\<close>

text \<open>
  The literal opens with a line break after the three quotes and every line of it ends
  with one; \<open>openapi_spec_lines\<close> are its lines 56 to 748 of the source.
\<close>

definition openapi_spec_lines :: "string list" where
  \<open>openapi_spec_lines = [
   ''{'',
   ''  "openapi": "3.0.3",'',
   ''  "info": {'',
   ''    "title": "ReqRes API",'',
   ''    "description": "A hosted REST-API ready to respond to your AJAX requests. Free fake REST API for testing and prototyping.",'',
   ''    "version": "1.0.0",'',
   ''    "contact": {'',
   ''      "name": "ReqRes",'',
   ''      "url": "https://reqres.in"'',
   ''    },'',
   ''    "license": {'',
   ''      "name": "MIT",'',
   ''      "url": "https://opensource.org/licenses/MIT"'',
   ''    }'',
   ''  },'',
   ''  "servers": ['',
   ''    {'',
   ''      "url": "https://reqres.in/api",'',
   ''      "description": "ReqRes.in API server"'',
   ''    }'',
   ''  ],'',
   ''  "paths": {'',
   ''    "/users": {'',
   ''      "get": {'',
   ''        "summary": "List Users",'',
   ''        "description": "Get a paginated list of users",'',
   ''        "tags": ["Users"],'',
   ''        "parameters": ['',
   ''          {'',
   ''            "name": "page",'',
   ''            "in": "query",'',
   ''            "required": false,'',
   ''            "description": "Page number (default: 1)",'',
   ''            "schema": {'',
   ''              "type": "integer",'',
   ''              "minimum": 1,'',
   ''              "default": 1'',
   ''            }'',
   ''          },'',
   ''          {'',
   ''            "name": "per_page",'',
   ''            "in": "query",'',
   ''            "required": false,'',
   ''            "description": "Number of users per page (default: 6)",'',
   ''            "schema": {'',
   ''              "type": "integer",'',
   ''              "minimum": 1,'',
   ''              "maximum": 12,'',
   ''              "default": 6'',
   ''            }'',
   ''          }'',
   ''        ],'',
   ''        "responses": {'',
   ''          "200": {'',
   ''            "description": "Success",'',
   ''            "content": {'',
   ''              "application/json": {'',
   ''                "schema": {'',
   ''                  "$ref": "#/components/schemas/UsersListResponse"'',
   ''                }'',
   ''              }'',
   ''            }'',
   ''          }'',
   ''        }'',
   ''      },'',
   ''      "post": {'',
   ''        "summary": "Create User",'',
   ''        "description": "Create a new user",'',
   ''        "tags": ["Users"],'',
   ''        "requestBody": {'',
   ''          "required": true,'',
   ''          "content": {'',
   ''            "application/json": {'',
   ''              "schema": {'',
   ''                "$ref": "#/components/schemas/CreateUserRequest"'',
   ''              }'',
   ''            }'',
   ''          }'',
   ''        },'',
   ''        "responses": {'',
   ''          "201": {'',
   ''            "description": "User created successfully",'',
   ''            "content": {'',
   ''              "application/json": {'',
   ''                "schema": {'',
   ''                  "$ref": "#/components/schemas/CreateUserResponse"'',
   ''                }'',
   ''              }'',
   ''            }'',
   ''          }'',
   ''        }'',
   ''      }'',
   ''    },'',
   ''    "/users/{id}": {'',
   ''      "get": {'',
   ''        "summary": "Get Single User",'',
   ''        "description": "Get a single user by ID",'',
   ''        "tags": ["Users"],'',
   ''        "parameters": ['',
   ''          {'',
   ''            "name": "id",'',
   ''            "in": "path",'',
   ''            "required": true,'',
   ''            "description": "User ID",'',
   ''            "schema": {'',
   ''              "type": "integer"'',
   ''            }'',
   ''          }'',
   ''        ],'',
   ''        "responses": {'',
   ''          "200": {'',
   ''            "description": "Success",'',
   ''            "content": {'',
   ''              "application/json": {'',
   ''                "schema": {'',
   ''                  "$ref": "#/components/schemas/SingleUserResponse"'',
   ''                }'',
   ''              }'',
   ''            }'',
   ''          },'',
   ''          "404": {'',
   ''            "description": "User not found",'',
   ''            "content": {'',
   ''              "application/json": {'',
   ''                "schema": {'',
   ''                  "$ref": "#/components/schemas/ErrorResponse"'',
   ''                }'',
   ''              }'',
   ''            }'',
   ''          }'',
   ''        }'',
   ''      },'',
   ''      "put": {'',
   ''        "summary": "Update User",'',
   ''        "description": "Update an existing user",'',
   ''        "tags": ["Users"],'',
   ''        "parameters": ['',
   ''          {'',
   ''            "name": "id",'',
   ''            "in": "path",'',
   ''            "required": true,'',
   ''            "description": "User ID",'',
   ''            "schema": {'',
   ''              "type": "integer"'',
   ''            }'',
   ''          }'',
   ''        ],'',
   ''        "requestBody": {'',
   ''          "required": true,'',
   ''          "content": {'',
   ''            "application/json": {'',
   ''              "schema": {'',
   ''                "$ref": "#/components/schemas/UpdateUserRequest"'',
   ''              }'',
   ''            }'',
   ''          }'',
   ''        },'',
   ''        "responses": {'',
   ''          "200": {'',
   ''            "description": "User updated successfully",'',
   ''            "content": {'',
   ''              "application/json": {'',
   ''                "schema": {'',
   ''                  "$ref": "#/components/schemas/UpdateUserResponse"'',
   ''                }'',
   ''              }'',
   ''            }'',
   ''          }'',
   ''        }'',
   ''      },'',
   ''      "patch": {'',
   ''        "summary": "Partial Update User",'',
   ''        "description": "Partially update an existing user",'',
   ''        "tags": ["Users"],'',
   ''        "parameters": ['',
   ''          {'',
   ''            "name": "id",'',
   ''            "in": "path",'',
   ''            "required": true,'',
   ''            "description": "User ID",'',
   ''            "schema": {'',
   ''              "type": "integer"'',
   ''            }'',
   ''          }'',
   ''        ],'',
   ''        "requestBody": {'',
   ''          "required": true,'',
   ''          "content": {'',
   ''            "application/json": {'',
   ''              "schema": {'',
   ''                "$ref": "#/components/schemas/UpdateUserRequest"'',
   ''              }'',
   ''            }'',
   ''          }'',
   ''        },'',
   ''        "responses": {'',
   ''          "200": {'',
   ''            "description": "User updated successfully",'',
   ''            "content": {'',
   ''              "application/json": {'',
   ''                "schema": {'',
   ''                  "$ref": "#/components/schemas/UpdateUserResponse"'',
   ''                }'',
   ''              }'',
   ''            }'',
   ''          }'',
   ''        }'',
   ''      },'',
   ''      "delete": {'',
   ''        "summary": "Delete User",'',
   ''        "description": "Delete a user by ID",'',
   ''        "tags": ["Users"],'',
   ''        "parameters": ['',
   ''          {'',
   ''            "name": "id",'',
   ''            "in": "path",'',
   ''            "required": true,'',
   ''            "description": "User ID",'',
   ''            "schema": {'',
   ''              "type": "integer"'',
   ''            }'',
   ''          }'',
   ''        ],'',
   ''        "responses": {'',
   ''          "204": {'',
   ''            "description": "User deleted successfully"'',
   ''          }'',
   ''        }'',
   ''      }'',
   ''    },'',
   ''    "/unknown": {'',
   ''      "get": {'',
   ''        "summary": "List Resources",'',
   ''        "description": "Get a list of unknown resources (colors)",'',
   ''        "tags": ["Resources"],'',
   ''        "parameters": ['',
   ''          {'',
   ''            "name": "page",'',
   ''            "in": "query",'',
   ''            "required": false,'',
   ''            "description": "Page number",'',
   ''            "schema": {'',
   ''              "type": "integer",'',
   ''              "minimum": 1,'',
   ''              "default": 1'',
   ''            }'',
   ''          }'',
   ''        ],'',
   ''        "responses": {'',
   ''          "200": {'',
   ''            "description": "Success",'',
   ''            "content": {'',
   ''              "application/json": {'',
   ''                "schema": {'',
   ''                  "$ref": "#/components/schemas/ResourcesListResponse"'',
   ''                }'',
   ''              }'',
   ''            }'',
   ''          }'',
   ''        }'',
   ''      }'',
   ''    },'',
   ''    "/unknown/{id}": {'',
   ''      "get": {'',
   ''        "summary": "Get Single Resource",'',
   ''        "description": "Get a single resource by ID",'',
   ''        "tags": ["Resources"],'',
   ''        "parameters": ['',
   ''          {'',
   ''            "name": "id",'',
   ''            "in": "path",'',
   ''            "required": true,'',
   ''            "description": "Resource ID",'',
   ''            "schema": {'',
   ''              "type": "integer"'',
   ''            }'',
   ''          }'',
   ''        ],'',
   ''        "responses": {'',
   ''          "200": {'',
   ''            "description": "Success",'',
   ''            "content": {'',
   ''              "application/json": {'',
   ''                "schema": {'',
   ''                  "$ref": "#/components/schemas/SingleResourceResponse"'',
   ''                }'',
   ''              }'',
   ''            }'',
   ''          },'',
   ''          "404": {'',
   ''            "description": "Resource not found",'',
   ''            "content": {'',
   ''              "application/json": {'',
   ''                "schema": {'',
   ''                  "$ref": "#/components/schemas/ErrorResponse"'',
   ''                }'',
   ''              }'',
   ''            }'',
   ''          }'',
   ''        }'',
   ''      }'',
   ''    },'',
   ''    "/register": {'',
   ''      "post": {'',
   ''        "summary": "Register User",'',
   ''        "description": "Register a new user account",'',
   ''        "tags": ["Authentication"],'',
   ''        "requestBody": {'',
   ''          "required": true,'',
   ''          "content": {'',
   ''            "application/json": {'',
   ''              "schema": {'',
   ''                "$ref": "#/components/schemas/RegisterRequest"'',
   ''              }'',
   ''            }'',
   ''          }'',
   ''        },'',
   ''        "responses": {'',
   ''          "200": {'',
   ''            "description": "Registration successful",'',
   ''            "content": {'',
   ''              "application/json": {'',
   ''                "schema": {'',
   ''                  "$ref": "#/components/schemas/RegisterResponse"'',
   ''                }'',
   ''              }'',
   ''            }'',
   ''          },'',
   ''          "400": {'',
   ''            "description": "Registration failed",'',
   ''            "content": {'',
   ''              "application/json": {'',
   ''                "schema": {'',
   ''                  "$ref": "#/components/schemas/ErrorResponse"'',
   ''                }'',
   ''              }'',
   ''            }'',
   ''          }'',
   ''        }'',
   ''      }'',
   ''    },'',
   ''    "/login": {'',
   ''      "post": {'',
   ''        "summary": "Login User",'',
   ''        "description": "Authenticate user and get token",'',
   ''        "tags": ["Authentication"],'',
   ''        "requestBody": {'',
   ''          "required": true,'',
   ''          "content": {'',
   ''            "application/json": {'',
   ''              "schema": {'',
   ''                "$ref": "#/components/schemas/LoginRequest"'',
   ''              }'',
   ''            }'',
   ''          }'',
   ''        },'',
   ''        "responses": {'',
   ''          "200": {'',
   ''            "description": "Login successful",'',
   ''            "content": {'',
   ''              "application/json": {'',
   ''                "schema": {'',
   ''                  "$ref": "#/components/schemas/LoginResponse"'',
   ''                }'',
   ''              }'',
   ''            }'',
   ''          },'',
   ''          "400": {'',
   ''            "description": "Login failed",'',
   ''            "content": {'',
   ''              "application/json": {'',
   ''                "schema": {'',
   ''                  "$ref": "#/components/schemas/ErrorResponse"'',
   ''                }'',
   ''              }'',
   ''            }'',
   ''          }'',
   ''        }'',
   ''      }'',
   ''    },'',
   ''    "/users/{delay}": {'',
   ''      "get": {'',
   ''        "summary": "Delayed Response",'',
   ''        "description": "Get users list with artificial delay (for testing purposes)",'',
   ''        "tags": ["Testing"],'',
   ''        "parameters": ['',
   ''          {'',
   ''            "name": "delay",'',
   ''            "in": "path",'',
   ''            "required": true,'',
   ''            "description": "Delay in seconds",'',
   ''            "schema": {'',
   ''              "type": "integer",'',
   ''              "minimum": 1'',
   ''            }'',
   ''          }'',
   ''        ],'',
   ''        "responses": {'',
   ''          "200": {'',
   ''            "description": "Success with delay",'',
   ''            "content": {'',
   ''              "application/json": {'',
   ''                "schema": {'',
   ''                  "$ref": "#/components/schemas/UsersListResponse"'',
   ''                }'',
   ''              }'',
   ''            }'',
   ''          }'',
   ''        }'',
   ''      }'',
   ''    }'',
   ''  },'',
   ''  "components": {'',
   ''    "schemas": {'',
   ''      "User": {'',
   ''        "type": "object",'',
   ''        "properties": {'',
   ''          "id": {'',
   ''            "type": "integer",'',
   ''            "description": "User ID"'',
   ''          },'',
   ''          "email": {'',
   ''            "type": "string",'',
   ''            "format": "email",'',
   ''            "description": "User email address"'',
   ''          },'',
   ''          "first_name": {'',
   ''            "type": "string",'',
   ''            "description": "User first name"'',
   ''          },'',
   ''          "last_name": {'',
   ''            "type": "string",'',
   ''            "description": "User last name"'',
   ''          },'',
   ''          "avatar": {'',
   ''            "type": "string",'',
   ''            "format": "uri",'',
   ''            "description": "User avatar URL"'',
   ''          }'',
   ''        }'',
   ''      },'',
   ''      "Resource": {'',
   ''        "type": "object",'',
   ''        "properties": {'',
   ''          "id": {'',
   ''            "type": "integer",'',
   ''            "description": "Resource ID"'',
   ''          },'',
   ''          "name": {'',
   ''            "type": "string",'',
   ''            "description": "Resource name"'',
   ''          },'',
   ''          "year": {'',
   ''            "type": "integer",'',
   ''            "description": "Resource year"'',
   ''          },'',
   ''          "color": {'',
   ''            "type": "string",'',
   ''            "description": "Resource color code"'',
   ''          },'',
   ''          "pantone_value": {'',
   ''            "type": "string",'',
   ''            "description": "Pantone color value"'',
   ''          }'',
   ''        }'',
   ''      },'',
   ''      "Support": {'',
   ''        "type": "object",'',
   ''        "properties": {'',
   ''          "url": {'',
   ''            "type": "string",'',
   ''            "format": "uri",'',
   ''            "description": "Support URL"'',
   ''          },'',
   ''          "text": {'',
   ''            "type": "string",'',
   ''            "description": "Support text"'',
   ''          }'',
   ''        }'',
   ''      },'',
   ''      "UsersListResponse": {'',
   ''        "type": "object",'',
   ''        "properties": {'',
   ''          "page": {'',
   ''            "type": "integer",'',
   ''            "description": "Current page number"'',
   ''          },'',
   ''          "per_page": {'',
   ''            "type": "integer",'',
   ''            "description": "Number of items per page"'',
   ''          },'',
   ''          "total": {'',
   ''            "type": "integer",'',
   ''            "description": "Total number of items"'',
   ''          },'',
   ''          "total_pages": {'',
   ''            "type": "integer",'',
   ''            "description": "Total number of pages"'',
   ''          },'',
   ''          "data": {'',
   ''            "type": "array",'',
   ''            "items": {'',
   ''              "$ref": "#/components/schemas/User"'',
   ''            }'',
   ''          },'',
   ''          "support": {'',
   ''            "$ref": "#/components/schemas/Support"'',
   ''          }'',
   ''        }'',
   ''      },'',
   ''      "SingleUserResponse": {'',
   ''        "type": "object",'',
   ''        "properties": {'',
   ''          "data": {'',
   ''            "$ref": "#/components/schemas/User"'',
   ''          },'',
   ''          "support": {'',
   ''            "$ref": "#/components/schemas/Support"'',
   ''          }'',
   ''        }'',
   ''      },'',
   ''      "ResourcesListResponse": {'',
   ''        "type": "object",'',
   ''        "properties": {'',
   ''          "page": {'',
   ''            "type": "integer",'',
   ''            "description": "Current page number"'',
   ''          },'',
   ''          "per_page": {'',
   ''            "type": "integer",'',
   ''            "description": "Number of items per page"'',
   ''          },'',
   ''          "total": {'',
   ''            "type": "integer",'',
   ''            "description": "Total number of items"'',
   ''          },'',
   ''          "total_pages": {'',
   ''            "type": "integer",'',
   ''            "description": "Total number of pages"'',
   ''          },'',
   ''          "data": {'',
   ''            "type": "array",'',
   ''            "items": {'',
   ''              "$ref": "#/components/schemas/Resource"'',
   ''            }'',
   ''          },'',
   ''          "support": {'',
   ''            "$ref": "#/components/schemas/Support"'',
   ''          }'',
   ''        }'',
   ''      },'',
   ''      "SingleResourceResponse": {'',
   ''        "type": "object",'',
   ''        "properties": {'',
   ''          "data": {'',
   ''            "$ref": "#/components/schemas/Resource"'',
   ''          },'',
   ''          "support": {'',
   ''            "$ref": "#/components/schemas/Support"'',
   ''          }'',
   ''        }'',
   ''      },'',
   ''      "CreateUserRequest": {'',
   ''        "type": "object",'',
   ''        "required": ["name", "job"],'',
   ''        "properties": {'',
   ''          "name": {'',
   ''            "type": "string",'',
   ''            "description": "User name"'',
   ''          },'',
   ''          "job": {'',
   ''            "type": "string",'',
   ''            "description": "User job title"'',
   ''          }'',
   ''        }'',
   ''      },'',
   ''      "CreateUserResponse": {'',
   ''        "type": "object",'',
   ''        "properties": {'',
   ''          "name": {'',
   ''            "type": "string",'',
   ''            "description": "User name"'',
   ''          },'',
   ''          "job": {'',
   ''            "type": "string",'',
   ''            "description": "User job title"'',
   ''          },'',
   ''          "id": {'',
   ''            "type": "string",'',
   ''            "description": "Generated user ID"'',
   ''          },'',
   ''          "createdAt": {'',
   ''            "type": "string",'',
   ''            "format": "date-time",'',
   ''            "description": "Creation timestamp"'',
   ''          }'',
   ''        }'',
   ''      },'',
   ''      "UpdateUserRequest": {'',
   ''        "type": "object",'',
   ''        "properties": {'',
   ''          "name": {'',
   ''            "type": "string",'',
   ''            "description": "User name"'',
   ''          },'',
   ''          "job": {'',
   ''            "type": "string",'',
   ''            "description": "User job title"'',
   ''          }'',
   ''        }'',
   ''      },'',
   ''      "UpdateUserResponse": {'',
   ''        "type": "object",'',
   ''        "properties": {'',
   ''          "name": {'',
   ''            "type": "string",'',
   ''            "description": "User name"'',
   ''          },'',
   ''          "job": {'',
   ''            "type": "string",'',
   ''            "description": "User job title"'',
   ''          },'',
   ''          "updatedAt": {'',
   ''            "type": "string",'',
   ''            "format": "date-time",'',
   ''            "description": "Update timestamp"'',
   ''          }'',
   ''        }'',
   ''      },'',
   ''      "RegisterRequest": {'',
   ''        "type": "object",'',
   ''        "required": ["email", "password"],'',
   ''        "properties": {'',
   ''          "email": {'',
   ''            "type": "string",'',
   ''            "format": "email",'',
   ''            "description": "User email address"'',
   ''          },'',
   ''          "password": {'',
   ''            "type": "string",'',
   ''            "description": "User password"'',
   ''          }'',
   ''        }'',
   ''      },'',
   ''      "RegisterResponse": {'',
   ''        "type": "object",'',
   ''        "properties": {'',
   ''          "id": {'',
   ''            "type": "integer",'',
   ''            "description": "User ID"'',
   ''          },'',
   ''          "token": {'',
   ''            "type": "string",'',
   ''            "description": "Authentication token"'',
   ''          }'',
   ''        }'',
   ''      },'',
   ''      "LoginRequest": {'',
   ''        "type": "object",'',
   ''        "required": ["email", "password"],'',
   ''        "properties": {'',
   ''          "email": {'',
   ''            "type": "string",'',
   ''            "format": "email",'',
   ''            "description": "User email address"'',
   ''          },'',
   ''          "password": {'',
   ''            "type": "string",'',
   ''            "description": "User password"'',
   ''          }'',
   ''        }'',
   ''      },'',
   ''      "LoginResponse": {'',
   ''        "type": "object",'',
   ''        "properties": {'',
   ''          "token": {'',
   ''            "type": "string",'',
   ''            "description": "Authentication token"'',
   ''          }'',
   ''        }'',
   ''      },'',
   ''      "ErrorResponse": {'',
   ''        "type": "object",'',
   ''        "properties": {'',
   ''          "error": {'',
   ''            "type": "string",'',
   ''            "description": "Error message"'',
   ''          }'',
   ''        }'',
   ''      }'',
   ''    }'',
   ''  }'',
   ''}''
  ]\<close>

definition openapi_spec_string :: string where
  "openapi_spec_string = CHR 0x0A # concat (map (\<lambda>l. l @ [CHR 0x0A]) openapi_spec_lines)"

subsection \<open>Toolsets and agent\<close>

definition users_toolset :: toolset where
  "users_toolset = OpenAPIToolset openapi_spec_string ''json''"

definition filesystem_toolset :: "world \<Rightarrow> toolset" where
  "filesystem_toolset w =
     MCPToolset ''npx''
       [''-y'', ''@modelcontextprotocol/server-filesystem'', abspath w (TARGET_FOLDER_PATH w)]"

definition instruction_lines :: "string list" where
  \<open>instruction_lines = [
   ''You are a versatile assistant that can:'',
   '''',
   ''    1. MANAGE WEATHER via API:'',
   ''       - List available users and resources'',
   ''       - Create new users'',
   ''       - Update existing users'',
   ''       - Get details for specific users'',
   ''       - List resources and their details'',
   ''       - Register and login users'',
   ''       - Handle delayed responses for testing purposes'',
   ''       - Manage weather alerts (if applicable)'',
   '''',
   ''    2. MANAGE FILES in the filesystem:'',
   ''       - List directories and files'',
   ''       - Read file contents'',
   ''       - Navigate through folders'',
   ''    When there is a request about users use the users_tools, without API KEY or any other credential.'',
   ''    Remember the users actions dont require authentication.'',
   ''    When the user asks about files, folders, or filesystem operations, use the filesystem tools.''
  ]\<close>

definition root_agent :: "world \<Rightarrow> agent" where
  "root_agent w =
     LlmAgent AGENT_NAME GEMINI_MODEL [users_toolset, filesystem_toolset w]
       (concat (map (\<lambda>l. l @ [CHR 0x0A]) instruction_lines) @ ''    '')
       ''A combined assistant that manages both users via API and files via filesystem.''"

subsection \<open>Start of the module: the credential\<close>

definition missing_key_message :: string where
  "missing_key_message =
     ''GOOGLE_API_KEY no encontrada en las variables de entorno. Aseg'' @ [CHR 0xFA] @
     ''rate de que est'' @ [CHR 0xE9] @ '' definida en tu archivo .env''"

text \<open>
  Lines 32 to 798.  \<^verbatim>\<open>if not google_api_key\<close> holds for \<open>None\<close> and for the empty
  string.
\<close>

definition module_level :: "world \<Rightarrow> run" where
  "module_level w =
     (let google_api_key = environ w ''GOOGLE_API_KEY'' in
      case google_api_key of
        None \<Rightarrow>
          ([LoadDotenv, Getenv ''GOOGLE_API_KEY''], Propagated (Exc ValueError missing_key_message))
      | Some key \<Rightarrow>
          if key = [] then
            ([LoadDotenv, Getenv ''GOOGLE_API_KEY''], Propagated (Exc ValueError missing_key_message))
          else
            ([LoadDotenv, Getenv ''GOOGLE_API_KEY'', Setenv ''GOOGLE_API_KEY'' key,
              Construct (ToolsetObj users_toolset),
              Construct (ToolsetObj (filesystem_toolset w)),
              Construct (AgentObj (root_agent w))], Returned))"

subsection \<open>Session and runner\<close>

definition setup_session_and_runner :: "world \<Rightarrow> run" where
  "setup_session_and_runner w =
     ([Construct SessionServiceObj,
       Construct (RunnerObj (root_agent w) APP_NAME),
       CreateSession APP_NAME USER_ID (SESSION_ID w)], Returned)"

subsection \<open>One query\<close>

text \<open>
  \<^verbatim>\<open>str.strip()\<close> removes the white space at both ends; for characters in the ASCII
  range those are the codes 9 to 13 and 28 to 32.
\<close>

definition isspace :: "char \<Rightarrow> bool" where
  "isspace c = ((9 \<le> (of_char c :: nat) \<and> (of_char c :: nat) \<le> 13) \<or>
                (28 \<le> (of_char c :: nat) \<and> (of_char c :: nat) \<le> 32))"

definition strip :: "string \<Rightarrow> string" where
  "strip s = rev (dropWhile isspace (rev (dropWhile isspace s)))"

text \<open>
  The body of the loop, lines 829 to 836: what is printed for one event and the new value
  of \<^verbatim>\<open>final_response_text\<close>, or the exception the body raises.  The text of a
  part may be \<open>None\<close>, and \<^verbatim>\<open>None.strip()\<close> is an \<open>AttributeError\<close>.
\<close>

definition handle_event :: "event \<Rightarrow> string \<Rightarrow> exc + line list \<times> string" where
  "handle_event ev final_response_text =
     (case get_function_calls ev of
        call # _ \<Rightarrow> Inr ([AgentActionLine (fc_name call) (fc_args call)], final_response_text)
      | [] \<Rightarrow>
          (case get_function_responses ev of
             response # _ \<Rightarrow> Inr ([ToolResponseLine (fr_name response)], final_response_text)
           | [] \<Rightarrow>
               if is_final_response ev then
                 (case event_content ev of
                    None \<Rightarrow> Inr ([], final_response_text)
                  | Some c \<Rightarrow>
                      (case content_parts c of
                         None \<Rightarrow> Inr ([], final_response_text)
                       | Some [] \<Rightarrow> Inr ([], final_response_text)
                       | Some (p # _) \<Rightarrow>
                           (case part_text p of
                              None \<Rightarrow>
                                Inl (Exc AttributeError
                                  ([CHR 0x27] @ ''NoneType'' @ [CHR 0x27] @
                                   '' object has no attribute '' @
                                   [CHR 0x27] @ ''strip'' @ [CHR 0x27]))
                            | Some t \<Rightarrow> Inr ([], strip t))))
               else Inr ([], final_response_text)))"

datatype loop_end = Done string | Raised exc | Stuck

fun async_for :: "event list \<Rightarrow> ending \<Rightarrow> string \<Rightarrow> action list \<times> loop_end" where
  "async_for [] Exhausted final_response_text = ([], Done final_response_text)"
| "async_for [] (Raises e) final_response_text = ([], Raised e)"
| "async_for [] Hangs final_response_text = ([], Stuck)"
| "async_for (ev # evs) en final_response_text =
     (case handle_event ev final_response_text of
        Inl e \<Rightarrow> ([Receive ev], Raised e)
      | Inr (out, t) \<Rightarrow>
          (Receive ev # map Print out @ fst (async_for evs en t), snd (async_for evs en t)))"

text \<open>
  Lines 816 to 844.  The two first prints and the construction of the message stand
  before the \<^verbatim>\<open>try\<close>; the handler catches \<^verbatim>\<open>Exception\<close>; the last print
  follows the \<^verbatim>\<open>try\<close> statement.
\<close>

definition call_combined_agent_async :: "world \<Rightarrow> nat \<Rightarrow> string \<Rightarrow> run" where
  "call_combined_agent_async w k query =
     (let content = Content ''user'' (Some [Part (Some query)]);
          final_response_text = ''Agent did not provide a final text response.'';
          before = [Print (Text (CHR 0x0A # ''--- Combined Agent Query ---'')),
                    Print (Text (''Query: '' @ query)),
                    RunAsync USER_ID (SESSION_ID w) content];
          resp = run_async w k USER_ID (SESSION_ID w) content;
          loop = async_for (events resp) (ending resp) final_response_text;
          dashes = Print (Text (replicate 50 CHR ''-''))
      in case snd loop of
           Done t \<Rightarrow> (before @ fst loop @ [Print (FinalResponseLine t), dashes], Returned)
         | Raised e \<Rightarrow>
             if isinstance_Exception e then
               (before @ fst loop @ [Print (ErrorLine (exc_str e)), PrintExc, dashes], Returned)
             else (before @ fst loop, Propagated e)
         | Stuck \<Rightarrow> (before @ fst loop, Blocked))"

subsection \<open>The six queries\<close>

definition run_combined_example :: "world \<Rightarrow> run" where
  \<open>run_combined_example w =
     seq_all
      [setup_session_and_runner w,
       print ''=== TESTING PET STORE API ==='',
       call_combined_agent_async w 0 ''Show me available pets in the store'',
       call_combined_agent_async w 1 ''Add a new cat named 'Whiskers' to the store'',
       call_combined_agent_async w 2 ''Get details for pet ID 456'',
       print (CHR 0x0A # ''=== TESTING FILESYSTEM ===''),
       call_combined_agent_async w 3 ''List the files in the current directory'',
       call_combined_agent_async w 4 ''What files are available to read?'',
       print (CHR 0x0A # ''=== TESTING MIXED FUNCTIONALITY ===''),
       call_combined_agent_async w 5
         ''Create a pet named 'Buddy' and then show me what files I have'']\<close>

subsection \<open>The program\<close>

text \<open>\<open>contains s t\<close> is Python's \<^verbatim>\<open>s in t\<close> on strings.\<close>

fun is_prefix :: "string \<Rightarrow> string \<Rightarrow> bool" where
  "is_prefix [] s = True"
| "is_prefix (p # ps) [] = False"
| "is_prefix (p # ps) (c # s) = (p = c \<and> is_prefix ps s)"

fun contains :: "string \<Rightarrow> string \<Rightarrow> bool" where
  "contains s [] = is_prefix s []"
| "contains s (c # t) = (is_prefix s (c # t) \<or> contains s t)"

text \<open>
  Lines 866 to 875, for the module run as the program (\<^verbatim>\<open>__name__\<close> is
  \<^verbatim>\<open>__main__\<close>).  \<^verbatim>\<open>asyncio.run\<close> refuses to start inside a running event
  loop with a \<open>RuntimeError\<close>; otherwise it runs the coroutine to its end.  The
  handler catches \<open>RuntimeError\<close> only, and raises again what does not carry the text
  it looks for.  \<open>script\<close> is the whole program: the start of the module, then the
  block of line 866.
\<close>

definition asyncio_run :: "world \<Rightarrow> run \<Rightarrow> run" where
  "asyncio_run w coroutine =
     (if running_loop w then
        ([], Propagated (Exc RuntimeError
           ''asyncio.run() cannot be called from a running event loop''))
      else coroutine)"

definition main :: "world \<Rightarrow> run" where
  "main w =
     seq_all
      [([Print ExecutingLine], Returned),
       (let r = asyncio_run w (run_combined_example w) in
        case snd r of
          Propagated e \<Rightarrow>
            if isinstance_RuntimeError e then
              (if contains ''cannot be called from a running event loop'' (exc_str e)
               then (fst r @ [Print RunningLoopLine], Returned)
               else r)
            else r
        | _ \<Rightarrow> r),
       ([Print FinishedLine], Returned)]"

definition script :: "world \<Rightarrow> run" where
  "script w = seq (module_level w) (main w)"

section \<open>JSON text\<close>

text \<open>
  The script never reads the embedded document itself: it hands the string to the OpenAPI
  toolset with the type \<^verbatim>\<open>json\<close>.  To speak of the document the claims describe, the
  string is read here by the JSON grammar of RFC 8259: a scanner turns the characters into
  tokens, a parser turns the tokens into a value.  A string token keeps the characters
  between its quotes as they are written (escapes are checked, not decoded), a number
  token keeps its digits.
\<close>

datatype json =
    JNull
  | JBool bool
  | JNumber string
  | JString string
  | JArray "json list"
  | JObject "(string \<times> json) list"

datatype token =
    LBrace | RBrace | LBracket | RBracket | Colon | Comma
  | TString string | TNumber string | TTrue | TFalse | TNull | TError

datatype mode = Top | InString string | InEscape string | InHex nat string | InWord string | Failed

definition is_ws :: "char \<Rightarrow> bool" where
  "is_ws c = (c = CHR '' '' \<or> c = CHR 0x09 \<or> c = CHR 0x0A \<or> c = CHR 0x0D)"

definition is_digit :: "char \<Rightarrow> bool" where
  "is_digit c = (c \<in> set ''0123456789'')"

definition is_hex :: "char \<Rightarrow> bool" where
  "is_hex c = (c \<in> set ''0123456789abcdefABCDEF'')"

definition is_simple_escape :: "char \<Rightarrow> bool" where
  "is_simple_escape c = (c = CHR 0x22 \<or> c = CHR 0x5C \<or> c \<in> set ''/bfnrt'')"

definition is_word_char :: "char \<Rightarrow> bool" where
  "is_word_char c =
     (c \<in> set ''0123456789+-.abcdefghijklmnopqrstuvwxyzABCDEFGHIJKLMNOPQRSTUVWXYZ'')"

definition digits1 :: "string \<Rightarrow> bool" where
  "digits1 s = (s \<noteq> [] \<and> list_all is_digit s)"

definition valid_exp :: "string \<Rightarrow> bool" where
  "valid_exp s =
     (case s of
        [] \<Rightarrow> True
      | c # r \<Rightarrow>
          (c = CHR ''e'' \<or> c = CHR ''E'') \<and>
          (case r of
             [] \<Rightarrow> False
           | g # r' \<Rightarrow> if g = CHR ''+'' \<or> g = CHR ''-'' then digits1 r' else digits1 r))"

definition valid_frac :: "string \<Rightarrow> bool" where
  "valid_frac s =
     (case s of
        [] \<Rightarrow> True
      | c # r \<Rightarrow>
          if c = CHR ''.'' then
            takeWhile is_digit r \<noteq> [] \<and> valid_exp (dropWhile is_digit r)
          else valid_exp s)"

definition valid_int :: "string \<Rightarrow> bool" where
  "valid_int s =
     (case s of
        [] \<Rightarrow> False
      | c # r \<Rightarrow>
          if c = CHR ''0'' then valid_frac r
          else is_digit c \<and> valid_frac (dropWhile is_digit r))"

definition valid_number :: "string \<Rightarrow> bool" where
  "valid_number s =
     (case s of
        [] \<Rightarrow> False
      | c # r \<Rightarrow> if c = CHR ''-'' then valid_int r else valid_int s)"

definition word_token :: "string \<Rightarrow> token" where
  "word_token w =
     (if w = ''true'' then TTrue
      else if w = ''false'' then TFalse
      else if w = ''null'' then TNull
      else if valid_number w then TNumber w
      else TError)"

text \<open>
  The scanner is an automaton over the characters.  \<open>step\<close> consumes one character in
  a mode and gives the tokens that are complete with it and the next mode; a character
  that cannot continue gives \<open>TError\<close>, which no rule of the parser accepts.
\<close>

definition step_top :: "char \<Rightarrow> token list \<times> mode" where
  "step_top c =
     (if is_ws c then ([], Top)
      else if c = CHR 0x22 then ([], InString [])
      else if c = CHR '','' then ([Comma], Top)
      else if c = CHR '':'' then ([Colon], Top)
      else if c = CHR ''{'' then ([LBrace], Top)
      else if c = CHR ''}'' then ([RBrace], Top)
      else if c = CHR ''['' then ([LBracket], Top)
      else if c = CHR '']'' then ([RBracket], Top)
      else if is_word_char c then ([], InWord [c])
      else ([TError], Failed))"

fun step :: "mode \<Rightarrow> char \<Rightarrow> token list \<times> mode" where
  "step Top c = step_top c"
| "step (InString acc) c =
     (if c = CHR 0x22 then ([TString (rev acc)], Top)
      else if c = CHR 0x5C then ([], InEscape (c # acc))
      else if (of_char c :: nat) < 0x20 then ([TError], Failed)
      else ([], InString (c # acc)))"
| "step (InEscape acc) c =
     (if is_simple_escape c then ([], InString (c # acc))
      else if c = CHR ''u'' then ([], InHex 4 (c # acc))
      else ([TError], Failed))"
| "step (InHex n acc) c =
     (if is_hex c then ([], if n \<le> 1 then InString (c # acc) else InHex (n - 1) (c # acc))
      else ([TError], Failed))"
| "step (InWord acc) c =
     (if is_word_char c then ([], InWord (c # acc))
      else (word_token (rev acc) # fst (step_top c), snd (step_top c)))"
| "step Failed c = ([], Failed)"

fun finish :: "mode \<Rightarrow> token list" where
  "finish Top = []"
| "finish (InWord acc) = [word_token (rev acc)]"
| "finish Failed = []"
| "finish (InString acc) = [TError]"
| "finish (InEscape acc) = [TError]"
| "finish (InHex n acc) = [TError]"

fun scan :: "mode \<Rightarrow> string \<Rightarrow> token list"
  and emit :: "token list \<times> mode \<Rightarrow> string \<Rightarrow> token list" where
  "scan m [] = finish m"
| "scan m (c # s) = emit (step m c) s"
| "emit (ts, m) s = ts @ scan m s"

fun parse_value :: "nat \<Rightarrow> token list \<Rightarrow> (json \<times> token list) option"
  and parse_elements :: "nat \<Rightarrow> token list \<Rightarrow> (json list \<times> token list) option"
  and parse_members :: "nat \<Rightarrow> token list \<Rightarrow> ((string \<times> json) list \<times> token list) option"
where
  "parse_value 0 ts = None"
| "parse_value (Suc n) [] = None"
| "parse_value (Suc n) (t # ts) =
     (case t of
        TNull \<Rightarrow> Some (JNull, ts)
      | TTrue \<Rightarrow> Some (JBool True, ts)
      | TFalse \<Rightarrow> Some (JBool False, ts)
      | TNumber w \<Rightarrow> Some (JNumber w, ts)
      | TString s \<Rightarrow> Some (JString s, ts)
      | LBracket \<Rightarrow>
          (case ts of
             RBracket # r \<Rightarrow> Some (JArray [], r)
           | _ \<Rightarrow> map_option (\<lambda>(vs, r). (JArray vs, r)) (parse_elements n ts))
      | LBrace \<Rightarrow>
          (case ts of
             RBrace # r \<Rightarrow> Some (JObject [], r)
           | _ \<Rightarrow> map_option (\<lambda>(ms, r). (JObject ms, r)) (parse_members n ts))
      | _ \<Rightarrow> None)"
| "parse_elements 0 ts = None"
| "parse_elements (Suc n) ts =
     (case parse_value n ts of
        None \<Rightarrow> None
      | Some (v, r) \<Rightarrow>
          (case r of
             Comma # r' \<Rightarrow> map_option (\<lambda>(vs, r''). (v # vs, r'')) (parse_elements n r')
           | RBracket # r' \<Rightarrow> Some ([v], r')
           | _ \<Rightarrow> None))"
| "parse_members 0 ts = None"
| "parse_members (Suc n) ts =
     (case ts of
        TString k # Colon # r \<Rightarrow>
          (case parse_value n r of
             None \<Rightarrow> None
           | Some (v, r') \<Rightarrow>
               (case r' of
                  Comma # r'' \<Rightarrow>
                    map_option (\<lambda>(ms, r'''). ((k, v) # ms, r''')) (parse_members n r'')
                | RBrace # r'' \<Rightarrow> Some ([(k, v)], r'')
                | _ \<Rightarrow> None))
      | _ \<Rightarrow> None)"

definition parse_json :: "string \<Rightarrow> json option" where
  "parse_json s =
     (let ts = scan Top s in
      case parse_value (length ts) ts of
        Some (v, []) \<Rightarrow> Some v
      | _ \<Rightarrow> None)"

fun separated :: "token list list \<Rightarrow> token list" where
  "separated [] = []"
| "separated [x] = x"
| "separated (x # y # zs) = x @ Comma # separated (y # zs)"

primrec tokens_of :: "json \<Rightarrow> token list" where
  "tokens_of JNull = [TNull]"
| "tokens_of (JBool b) = [if b then TTrue else TFalse]"
| "tokens_of (JNumber w) = [TNumber w]"
| "tokens_of (JString s) = [TString s]"
| "tokens_of (JArray vs) = LBracket # separated (map tokens_of vs) @ [RBracket]"
| "tokens_of (JObject ms) =
     LBrace #
     separated (map (\<lambda>(k, ts). TString k # Colon # ts) (map (map_prod id tokens_of) ms)) @
     [RBrace]"

definition member_tokens :: "string \<times> json \<Rightarrow> token list" where
  "member_tokens m = TString (fst m) # Colon # tokens_of (snd m)"

subsection \<open>The value of the embedded document\<close>

text \<open>
  \<open>openapi_doc\<close> is the value that the embedded string denotes; that
  \<open>parse_json\<close> yields it from \<open>openapi_spec_string\<close> is the lemma
  \<open>openapi_spec_string_parses\<close> below.
\<close>

definition openapi_doc :: json where
  \<open>openapi_doc =
   JObject
    [(''openapi'', JString ''3.0.3''),
     (''info'',
      JObject
       [(''title'', JString ''ReqRes API''),
        (''description'',
         JString ''A hosted REST-API ready to respond to your AJAX requests. Free fake REST API for testing and prototyping.''),
        (''version'', JString ''1.0.0''),
        (''contact'',
         JObject
          [(''name'', JString ''ReqRes''),
           (''url'', JString ''https://reqres.in'')]),
        (''license'',
         JObject
          [(''name'', JString ''MIT''),
           (''url'', JString ''https://opensource.org/licenses/MIT'')])]),
     (''servers'',
      JArray
       [JObject
         [(''url'', JString ''https://reqres.in/api''),
          (''description'', JString ''ReqRes.in API server'')]]),
     (''paths'',
      JObject
       [(''/users'',
         JObject
          [(''get'',
            JObject
             [(''summary'', JString ''List Users''),
              (''description'', JString ''Get a paginated list of users''),
              (''tags'', JArray [JString ''Users'']),
              (''parameters'',
               JArray
                [JObject
                  [(''name'', JString ''page''),
                   (''in'', JString ''query''),
                   (''required'', JBool False),
                   (''description'', JString ''Page number (default: 1)''),
                   (''schema'',
                    JObject
                     [(''type'', JString ''integer''),
                      (''minimum'', JNumber ''1''),
                      (''default'', JNumber ''1'')])],
                 JObject
                  [(''name'', JString ''per_page''),
                   (''in'', JString ''query''),
                   (''required'', JBool False),
                   (''description'', JString ''Number of users per page (default: 6)''),
                   (''schema'',
                    JObject
                     [(''type'', JString ''integer''),
                      (''minimum'', JNumber ''1''),
                      (''maximum'', JNumber ''12''),
                      (''default'', JNumber ''6'')])]]),
              (''responses'',
               JObject
                [(''200'',
                  JObject
                   [(''description'', JString ''Success''),
                    (''content'',
                     JObject
                      [(''application/json'',
                        JObject
                         [(''schema'',
                           JObject
                            [(''$ref'', JString ''#/components/schemas/UsersListResponse'')])])])])])]),
           (''post'',
            JObject
             [(''summary'', JString ''Create User''),
              (''description'', JString ''Create a new user''),
              (''tags'', JArray [JString ''Users'']),
              (''requestBody'',
               JObject
                [(''required'', JBool True),
                 (''content'',
                  JObject
                   [(''application/json'',
                     JObject
                      [(''schema'',
                        JObject
                         [(''$ref'', JString ''#/components/schemas/CreateUserRequest'')])])])]),
              (''responses'',
               JObject
                [(''201'',
                  JObject
                   [(''description'', JString ''User created successfully''),
                    (''content'',
                     JObject
                      [(''application/json'',
                        JObject
                         [(''schema'',
                           JObject
                            [(''$ref'', JString ''#/components/schemas/CreateUserResponse'')])])])])])])]),
        (''/users/{id}'',
         JObject
          [(''get'',
            JObject
             [(''summary'', JString ''Get Single User''),
              (''description'', JString ''Get a single user by ID''),
              (''tags'', JArray [JString ''Users'']),
              (''parameters'',
               JArray
                [JObject
                  [(''name'', JString ''id''),
                   (''in'', JString ''path''),
                   (''required'', JBool True),
                   (''description'', JString ''User ID''),
                   (''schema'', JObject [(''type'', JString ''integer'')])]]),
              (''responses'',
               JObject
                [(''200'',
                  JObject
                   [(''description'', JString ''Success''),
                    (''content'',
                     JObject
                      [(''application/json'',
                        JObject
                         [(''schema'',
                           JObject
                            [(''$ref'', JString ''#/components/schemas/SingleUserResponse'')])])])]),
                 (''404'',
                  JObject
                   [(''description'', JString ''User not found''),
                    (''content'',
                     JObject
                      [(''application/json'',
                        JObject
                         [(''schema'',
                           JObject
                            [(''$ref'', JString ''#/components/schemas/ErrorResponse'')])])])])])]),
           (''put'',
            JObject
             [(''summary'', JString ''Update User''),
              (''description'', JString ''Update an existing user''),
              (''tags'', JArray [JString ''Users'']),
              (''parameters'',
               JArray
                [JObject
                  [(''name'', JString ''id''),
                   (''in'', JString ''path''),
                   (''required'', JBool True),
                   (''description'', JString ''User ID''),
                   (''schema'', JObject [(''type'', JString ''integer'')])]]),
              (''requestBody'',
               JObject
                [(''required'', JBool True),
                 (''content'',
                  JObject
                   [(''application/json'',
                     JObject
                      [(''schema'',
                        JObject
                         [(''$ref'', JString ''#/components/schemas/UpdateUserRequest'')])])])]),
              (''responses'',
               JObject
                [(''200'',
                  JObject
                   [(''description'', JString ''User updated successfully''),
                    (''content'',
                     JObject
                      [(''application/json'',
                        JObject
                         [(''schema'',
                           JObject
                            [(''$ref'', JString ''#/components/schemas/UpdateUserResponse'')])])])])])]),
           (''patch'',
            JObject
             [(''summary'', JString ''Partial Update User''),
              (''description'', JString ''Partially update an existing user''),
              (''tags'', JArray [JString ''Users'']),
              (''parameters'',
               JArray
                [JObject
                  [(''name'', JString ''id''),
                   (''in'', JString ''path''),
                   (''required'', JBool True),
                   (''description'', JString ''User ID''),
                   (''schema'', JObject [(''type'', JString ''integer'')])]]),
              (''requestBody'',
               JObject
                [(''required'', JBool True),
                 (''content'',
                  JObject
                   [(''application/json'',
                     JObject
                      [(''schema'',
                        JObject
                         [(''$ref'', JString ''#/components/schemas/UpdateUserRequest'')])])])]),
              (''responses'',
               JObject
                [(''200'',
                  JObject
                   [(''description'', JString ''User updated successfully''),
                    (''content'',
                     JObject
                      [(''application/json'',
                        JObject
                         [(''schema'',
                           JObject
                            [(''$ref'', JString ''#/components/schemas/UpdateUserResponse'')])])])])])]),
           (''delete'',
            JObject
             [(''summary'', JString ''Delete User''),
              (''description'', JString ''Delete a user by ID''),
              (''tags'', JArray [JString ''Users'']),
              (''parameters'',
               JArray
                [JObject
                  [(''name'', JString ''id''),
                   (''in'', JString ''path''),
                   (''required'', JBool True),
                   (''description'', JString ''User ID''),
                   (''schema'', JObject [(''type'', JString ''integer'')])]]),
              (''responses'',
               JObject
                [(''204'', JObject [(''description'', JString ''User deleted successfully'')])])])]),
        (''/unknown'',
         JObject
          [(''get'',
            JObject
             [(''summary'', JString ''List Resources''),
              (''description'', JString ''Get a list of unknown resources (colors)''),
              (''tags'', JArray [JString ''Resources'']),
              (''parameters'',
               JArray
                [JObject
                  [(''name'', JString ''page''),
                   (''in'', JString ''query''),
                   (''required'', JBool False),
                   (''description'', JString ''Page number''),
                   (''schema'',
                    JObject
                     [(''type'', JString ''integer''),
                      (''minimum'', JNumber ''1''),
                      (''default'', JNumber ''1'')])]]),
              (''responses'',
               JObject
                [(''200'',
                  JObject
                   [(''description'', JString ''Success''),
                    (''content'',
                     JObject
                      [(''application/json'',
                        JObject
                         [(''schema'',
                           JObject
                            [(''$ref'',
                              JString ''#/components/schemas/ResourcesListResponse'')])])])])])])]),
        (''/unknown/{id}'',
         JObject
          [(''get'',
            JObject
             [(''summary'', JString ''Get Single Resource''),
              (''description'', JString ''Get a single resource by ID''),
              (''tags'', JArray [JString ''Resources'']),
              (''parameters'',
               JArray
                [JObject
                  [(''name'', JString ''id''),
                   (''in'', JString ''path''),
                   (''required'', JBool True),
                   (''description'', JString ''Resource ID''),
                   (''schema'', JObject [(''type'', JString ''integer'')])]]),
              (''responses'',
               JObject
                [(''200'',
                  JObject
                   [(''description'', JString ''Success''),
                    (''content'',
                     JObject
                      [(''application/json'',
                        JObject
                         [(''schema'',
                           JObject
                            [(''$ref'',
                              JString ''#/components/schemas/SingleResourceResponse'')])])])]),
                 (''404'',
                  JObject
                   [(''description'', JString ''Resource not found''),
                    (''content'',
                     JObject
                      [(''application/json'',
                        JObject
                         [(''schema'',
                           JObject
                            [(''$ref'', JString ''#/components/schemas/ErrorResponse'')])])])])])])]),
        (''/register'',
         JObject
          [(''post'',
            JObject
             [(''summary'', JString ''Register User''),
              (''description'', JString ''Register a new user account''),
              (''tags'', JArray [JString ''Authentication'']),
              (''requestBody'',
               JObject
                [(''required'', JBool True),
                 (''content'',
                  JObject
                   [(''application/json'',
                     JObject
                      [(''schema'',
                        JObject
                         [(''$ref'', JString ''#/components/schemas/RegisterRequest'')])])])]),
              (''responses'',
               JObject
                [(''200'',
                  JObject
                   [(''description'', JString ''Registration successful''),
                    (''content'',
                     JObject
                      [(''application/json'',
                        JObject
                         [(''schema'',
                           JObject
                            [(''$ref'', JString ''#/components/schemas/RegisterResponse'')])])])]),
                 (''400'',
                  JObject
                   [(''description'', JString ''Registration failed''),
                    (''content'',
                     JObject
                      [(''application/json'',
                        JObject
                         [(''schema'',
                           JObject
                            [(''$ref'', JString ''#/components/schemas/ErrorResponse'')])])])])])])]),
        (''/login'',
         JObject
          [(''post'',
            JObject
             [(''summary'', JString ''Login User''),
              (''description'', JString ''Authenticate user and get token''),
              (''tags'', JArray [JString ''Authentication'']),
              (''requestBody'',
               JObject
                [(''required'', JBool True),
                 (''content'',
                  JObject
                   [(''application/json'',
                     JObject
                      [(''schema'',
                        JObject
                         [(''$ref'', JString ''#/components/schemas/LoginRequest'')])])])]),
              (''responses'',
               JObject
                [(''200'',
                  JObject
                   [(''description'', JString ''Login successful''),
                    (''content'',
                     JObject
                      [(''application/json'',
                        JObject
                         [(''schema'',
                           JObject
                            [(''$ref'', JString ''#/components/schemas/LoginResponse'')])])])]),
                 (''400'',
                  JObject
                   [(''description'', JString ''Login failed''),
                    (''content'',
                     JObject
                      [(''application/json'',
                        JObject
                         [(''schema'',
                           JObject
                            [(''$ref'', JString ''#/components/schemas/ErrorResponse'')])])])])])])]),
        (''/users/{delay}'',
         JObject
          [(''get'',
            JObject
             [(''summary'', JString ''Delayed Response''),
              (''description'',
               JString ''Get users list with artificial delay (for testing purposes)''),
              (''tags'', JArray [JString ''Testing'']),
              (''parameters'',
               JArray
                [JObject
                  [(''name'', JString ''delay''),
                   (''in'', JString ''path''),
                   (''required'', JBool True),
                   (''description'', JString ''Delay in seconds''),
                   (''schema'',
                    JObject
                     [(''type'', JString ''integer''),
                      (''minimum'', JNumber ''1'')])]]),
              (''responses'',
               JObject
                [(''200'',
                  JObject
                   [(''description'', JString ''Success with delay''),
                    (''content'',
                     JObject
                      [(''application/json'',
                        JObject
                         [(''schema'',
                           JObject
                            [(''$ref'', JString ''#/components/schemas/UsersListResponse'')])])])])])])])]),
     (''components'',
      JObject
       [(''schemas'',
         JObject
          [(''User'',
            JObject
             [(''type'', JString ''object''),
              (''properties'',
               JObject
                [(''id'',
                  JObject
                   [(''type'', JString ''integer''),
                    (''description'', JString ''User ID'')]),
                 (''email'',
                  JObject
                   [(''type'', JString ''string''),
                    (''format'', JString ''email''),
                    (''description'', JString ''User email address'')]),
                 (''first_name'',
                  JObject
                   [(''type'', JString ''string''),
                    (''description'', JString ''User first name'')]),
                 (''last_name'',
                  JObject
                   [(''type'', JString ''string''),
                    (''description'', JString ''User last name'')]),
                 (''avatar'',
                  JObject
                   [(''type'', JString ''string''),
                    (''format'', JString ''uri''),
                    (''description'', JString ''User avatar URL'')])])]),
           (''Resource'',
            JObject
             [(''type'', JString ''object''),
              (''properties'',
               JObject
                [(''id'',
                  JObject
                   [(''type'', JString ''integer''),
                    (''description'', JString ''Resource ID'')]),
                 (''name'',
                  JObject
                   [(''type'', JString ''string''),
                    (''description'', JString ''Resource name'')]),
                 (''year'',
                  JObject
                   [(''type'', JString ''integer''),
                    (''description'', JString ''Resource year'')]),
                 (''color'',
                  JObject
                   [(''type'', JString ''string''),
                    (''description'', JString ''Resource color code'')]),
                 (''pantone_value'',
                  JObject
                   [(''type'', JString ''string''),
                    (''description'', JString ''Pantone color value'')])])]),
           (''Support'',
            JObject
             [(''type'', JString ''object''),
              (''properties'',
               JObject
                [(''url'',
                  JObject
                   [(''type'', JString ''string''),
                    (''format'', JString ''uri''),
                    (''description'', JString ''Support URL'')]),
                 (''text'',
                  JObject
                   [(''type'', JString ''string''),
                    (''description'', JString ''Support text'')])])]),
           (''UsersListResponse'',
            JObject
             [(''type'', JString ''object''),
              (''properties'',
               JObject
                [(''page'',
                  JObject
                   [(''type'', JString ''integer''),
                    (''description'', JString ''Current page number'')]),
                 (''per_page'',
                  JObject
                   [(''type'', JString ''integer''),
                    (''description'', JString ''Number of items per page'')]),
                 (''total'',
                  JObject
                   [(''type'', JString ''integer''),
                    (''description'', JString ''Total number of items'')]),
                 (''total_pages'',
                  JObject
                   [(''type'', JString ''integer''),
                    (''description'', JString ''Total number of pages'')]),
                 (''data'',
                  JObject
                   [(''type'', JString ''array''),
                    (''items'', JObject [(''$ref'', JString ''#/components/schemas/User'')])]),
                 (''support'', JObject [(''$ref'', JString ''#/components/schemas/Support'')])])]),
           (''SingleUserResponse'',
            JObject
             [(''type'', JString ''object''),
              (''properties'',
               JObject
                [(''data'', JObject [(''$ref'', JString ''#/components/schemas/User'')]),
                 (''support'', JObject [(''$ref'', JString ''#/components/schemas/Support'')])])]),
           (''ResourcesListResponse'',
            JObject
             [(''type'', JString ''object''),
              (''properties'',
               JObject
                [(''page'',
                  JObject
                   [(''type'', JString ''integer''),
                    (''description'', JString ''Current page number'')]),
                 (''per_page'',
                  JObject
                   [(''type'', JString ''integer''),
                    (''description'', JString ''Number of items per page'')]),
                 (''total'',
                  JObject
                   [(''type'', JString ''integer''),
                    (''description'', JString ''Total number of items'')]),
                 (''total_pages'',
                  JObject
                   [(''type'', JString ''integer''),
                    (''description'', JString ''Total number of pages'')]),
                 (''data'',
                  JObject
                   [(''type'', JString ''array''),
                    (''items'',
                     JObject [(''$ref'', JString ''#/components/schemas/Resource'')])]),
                 (''support'', JObject [(''$ref'', JString ''#/components/schemas/Support'')])])]),
           (''SingleResourceResponse'',
            JObject
             [(''type'', JString ''object''),
              (''properties'',
               JObject
                [(''data'', JObject [(''$ref'', JString ''#/components/schemas/Resource'')]),
                 (''support'', JObject [(''$ref'', JString ''#/components/schemas/Support'')])])]),
           (''CreateUserRequest'',
            JObject
             [(''type'', JString ''object''),
              (''required'', JArray [JString ''name'', JString ''job'']),
              (''properties'',
               JObject
                [(''name'',
                  JObject
                   [(''type'', JString ''string''),
                    (''description'', JString ''User name'')]),
                 (''job'',
                  JObject
                   [(''type'', JString ''string''),
                    (''description'', JString ''User job title'')])])]),
           (''CreateUserResponse'',
            JObject
             [(''type'', JString ''object''),
              (''properties'',
               JObject
                [(''name'',
                  JObject
                   [(''type'', JString ''string''),
                    (''description'', JString ''User name'')]),
                 (''job'',
                  JObject
                   [(''type'', JString ''string''),
                    (''description'', JString ''User job title'')]),
                 (''id'',
                  JObject
                   [(''type'', JString ''string''),
                    (''description'', JString ''Generated user ID'')]),
                 (''createdAt'',
                  JObject
                   [(''type'', JString ''string''),
                    (''format'', JString ''date-time''),
                    (''description'', JString ''Creation timestamp'')])])]),
           (''UpdateUserRequest'',
            JObject
             [(''type'', JString ''object''),
              (''properties'',
               JObject
                [(''name'',
                  JObject
                   [(''type'', JString ''string''),
                    (''description'', JString ''User name'')]),
                 (''job'',
                  JObject
                   [(''type'', JString ''string''),
                    (''description'', JString ''User job title'')])])]),
           (''UpdateUserResponse'',
            JObject
             [(''type'', JString ''object''),
              (''properties'',
               JObject
                [(''name'',
                  JObject
                   [(''type'', JString ''string''),
                    (''description'', JString ''User name'')]),
                 (''job'',
                  JObject
                   [(''type'', JString ''string''),
                    (''description'', JString ''User job title'')]),
                 (''updatedAt'',
                  JObject
                   [(''type'', JString ''string''),
                    (''format'', JString ''date-time''),
                    (''description'', JString ''Update timestamp'')])])]),
           (''RegisterRequest'',
            JObject
             [(''type'', JString ''object''),
              (''required'', JArray [JString ''email'', JString ''password'']),
              (''properties'',
               JObject
                [(''email'',
                  JObject
                   [(''type'', JString ''string''),
                    (''format'', JString ''email''),
                    (''description'', JString ''User email address'')]),
                 (''password'',
                  JObject
                   [(''type'', JString ''string''),
                    (''description'', JString ''User password'')])])]),
           (''RegisterResponse'',
            JObject
             [(''type'', JString ''object''),
              (''properties'',
               JObject
                [(''id'',
                  JObject
                   [(''type'', JString ''integer''),
                    (''description'', JString ''User ID'')]),
                 (''token'',
                  JObject
                   [(''type'', JString ''string''),
                    (''description'', JString ''Authentication token'')])])]),
           (''LoginRequest'',
            JObject
             [(''type'', JString ''object''),
              (''required'', JArray [JString ''email'', JString ''password'']),
              (''properties'',
               JObject
                [(''email'',
                  JObject
                   [(''type'', JString ''string''),
                    (''format'', JString ''email''),
                    (''description'', JString ''User email address'')]),
                 (''password'',
                  JObject
                   [(''type'', JString ''string''),
                    (''description'', JString ''User password'')])])]),
           (''LoginResponse'',
            JObject
             [(''type'', JString ''object''),
              (''properties'',
               JObject
                [(''token'',
                  JObject
                   [(''type'', JString ''string''),
                    (''description'', JString ''Authentication token'')])])]),
           (''ErrorResponse'',
            JObject
             [(''type'', JString ''object''),
              (''properties'',
               JObject
                [(''error'',
                  JObject
                   [(''type'', JString ''string''),
                    (''description'', JString ''Error message'')])])])])])]\<close>

subsection \<open>Reading a document\<close>

text \<open>
  \<open>ref_values\<close> collects, in document order, the value of every member named
  \<^verbatim>\<open>$ref\<close>, at any depth.  A reference resolves to a schema under
  \<^verbatim>\<open>components/schemas\<close> when it is the string \<^verbatim>\<open>#/components/schemas/\<close>
  followed by one name (no further \<^verbatim>\<open>/\<close> and no \<^verbatim>\<open>~\<close> escape) and that name is
  a member of the object at \<^verbatim>\<open>components\<close>, \<^verbatim>\<open>schemas\<close>.
\<close>

fun lookup :: "string \<Rightarrow> (string \<times> json) list \<Rightarrow> json option" where
  "lookup k [] = None"
| "lookup k ((k', v) # ms) = (if k = k' then Some v else lookup k ms)"

fun field :: "string \<Rightarrow> json \<Rightarrow> json option" where
  "field k (JObject ms) = lookup k ms"
| "field k v = None"

fun member_names :: "json \<Rightarrow> string list" where
  "member_names (JObject ms) = map fst ms"
| "member_names v = []"

fun elements :: "json \<Rightarrow> json list" where
  "elements (JArray vs) = vs"
| "elements v = []"

fun ref_values :: "json \<Rightarrow> json list"
  and ref_values_elements :: "json list \<Rightarrow> json list"
  and ref_values_members :: "(string \<times> json) list \<Rightarrow> json list" where
  "ref_values (JArray vs) = ref_values_elements vs"
| "ref_values (JObject ms) = ref_values_members ms"
| "ref_values JNull = []"
| "ref_values (JBool b) = []"
| "ref_values (JNumber w) = []"
| "ref_values (JString s) = []"
| "ref_values_elements [] = []"
| "ref_values_elements (v # vs) = ref_values v @ ref_values_elements vs"
| "ref_values_members [] = []"
| "ref_values_members ((k, v) # ms) =
     (if k = ''$ref'' then [v] else []) @ ref_values v @ ref_values_members ms"

fun strip_prefix :: "string \<Rightarrow> string \<Rightarrow> string option" where
  "strip_prefix [] s = Some s"
| "strip_prefix (p # ps) [] = None"
| "strip_prefix (p # ps) (c # s) = (if p = c then strip_prefix ps s else None)"

definition schemas :: "json \<Rightarrow> json option" where
  "schemas doc =
     (case field ''components'' doc of None \<Rightarrow> None | Some c \<Rightarrow> field ''schemas'' c)"

definition schema_names :: "json \<Rightarrow> string list" where
  "schema_names doc = (case schemas doc of None \<Rightarrow> [] | Some ss \<Rightarrow> member_names ss)"

definition resolves_in :: "string list \<Rightarrow> json \<Rightarrow> bool" where
  "resolves_in names r =
     (case r of
        JString s \<Rightarrow>
          (case strip_prefix ''#/components/schemas/'' s of
             None \<Rightarrow> False
           | Some name \<Rightarrow>
               CHR ''/'' \<notin> set name \<and> CHR ''~'' \<notin> set name \<and> name \<in> set names)
      | _ \<Rightarrow> False)"

section \<open>What the claims speak of\<close>

subsection \<open>Projections of a trace\<close>

text \<open>
  \<open>submitted\<close> are the messages handed to \<^verbatim>\<open>runner.run_async\<close>, in order;
  \<open>interactions\<close> keeps of a trace the submissions and the receptions of events.
\<close>

fun submission :: "action \<Rightarrow> content list" where
  "submission (RunAsync u s c) = [c]"
| "submission a = []"

definition submitted :: "action list \<Rightarrow> content list" where
  "submitted tr = concat (map submission tr)"

fun interaction :: "action \<Rightarrow> action list" where
  "interaction (RunAsync u s c) = [RunAsync u s c]"
| "interaction (Receive ev) = [Receive ev]"
| "interaction a = []"

definition interactions :: "action list \<Rightarrow> action list" where
  "interactions tr = concat (map interaction tr)"

subsection \<open>One call, in parts\<close>

text \<open>
  \<open>user_message\<close> is the message line 820 builds from a query and \<open>answer w k query\<close>
  what the runner answers when call number \<open>k\<close> submits it.  \<open>agent_loop\<close> is the
  loop of lines 824 to 836 over that answer, started with the text of line 821;
  \<open>call_opening\<close> is what a call does before the loop, \<open>call_closing\<close> what it does
  after a loop that ended or that raised an exception the handler catches.
\<close>

definition user_message :: "string \<Rightarrow> content" where
  "user_message query = Content ''user'' (Some [Part (Some query)])"

definition answer :: "world \<Rightarrow> nat \<Rightarrow> string \<Rightarrow> response" where
  "answer w k query = run_async w k USER_ID (SESSION_ID w) (user_message query)"

definition default_text :: string where
  "default_text = ''Agent did not provide a final text response.''"

definition call_opening :: "world \<Rightarrow> string \<Rightarrow> action list" where
  "call_opening w query =
     [Print (Text (CHR 0x0A # ''--- Combined Agent Query ---'')),
      Print (Text (''Query: '' @ query)),
      RunAsync USER_ID (SESSION_ID w) (user_message query)]"

definition agent_loop :: "world \<Rightarrow> nat \<Rightarrow> string \<Rightarrow> action list \<times> loop_end" where
  "agent_loop w k query =
     async_for (events (answer w k query)) (ending (answer w k query)) default_text"

fun call_closing :: "loop_end \<Rightarrow> action list" where
  "call_closing (Done t) = [Print (FinalResponseLine t), Print (Text (replicate 50 CHR ''-''))]"
| "call_closing (Raised e) =
     [Print (ErrorLine (exc_str e)), PrintExc, Print (Text (replicate 50 CHR ''-''))]"
| "call_closing Stuck = []"

text \<open>
  A run is \<open>recoverable\<close> when it ends, and ends in a way the \<^verbatim>\<open>try\<close> statement
  copes with: the generator is exhausted, or it raises an exception that derives from
  \<open>Exception\<close>.  \<open>taken evs t\<close> are the events the loop receives of \<open>evs\<close>: all of
  them, or those up to the first one for which the body raises; \<open>body_raises\<close> says
  whether the body raises for an event (it does not depend on the text so far).
\<close>

fun recoverable :: "ending \<Rightarrow> bool" where
  "recoverable Exhausted = True"
| "recoverable (Raises e) = isinstance_Exception e"
| "recoverable Hangs = False"

fun taken :: "event list \<Rightarrow> string \<Rightarrow> event list" where
  "taken [] t = []"
| "taken (ev # evs) t =
     (case handle_event ev t of Inl e \<Rightarrow> [ev] | Inr (out, t') \<Rightarrow> ev # taken evs t')"

definition body_raises :: "event \<Rightarrow> bool" where
  "body_raises ev = isl (handle_event ev [])"

text \<open>The literals of lines 853 to 863, in the order of the calls.\<close>

definition six_queries :: "string list" where
  \<open>six_queries =
     [''Show me available pets in the store'',
      ''Add a new cat named 'Whiskers' to the store'',
      ''Get details for pet ID 456'',
      ''List the files in the current directory'',
      ''What files are available to read?'',
      ''Create a pet named 'Buddy' and then show me what files I have'']\<close>

subsection \<open>Concrete worlds\<close>

text \<open>
  In \<open>plain_world\<close> the key is set and every run is empty.  \<open>faulty_world\<close> differs
  in the runner: the second run yields a function call and then raises, the fourth yields
  a final response whose part has no text (the body of the loop raises on it) and a
  further event, the other runs yield one final response with a text.  In
  \<open>unset_world\<close> the variable is absent, in \<open>empty_key_world\<close> it is the empty
  string.
\<close>

definition plain_world :: world where
  "plain_world =
     \<lparr>environ = [''GOOGLE_API_KEY'' \<mapsto> ''secret''],
      uuid4 = ''1b4e28ba'',
      module_file = ''/srv/adk_test/agent.py'',
      abspath = (\<lambda>p. p),
      dirname = (\<lambda>p. ''/srv/adk_test''),
      running_loop = False,
      run_async = (\<lambda>k u s c. Response [] Exhausted)\<rparr>"

definition final_event :: "string option \<Rightarrow> event" where
  "final_event t = Event [] [] True (Some (Content ''model'' (Some [Part t])))"

definition faulty_world :: world where
  "faulty_world =
     plain_world\<lparr>run_async := (\<lambda>k u s c.
        if k = 1 then
          Response [Event [FunctionCall ''post_users'' ''{}''] [] False None]
            (Raises (Exc OtherException ''connection reset''))
        else if k = 3 then Response [final_event None, final_event (Some ''late'')] Exhausted
        else Response [final_event (Some '' done '')] Exhausted)\<rparr>"

definition unset_world :: world where
  "unset_world = plain_world\<lparr>environ := Map.empty\<rparr>"

definition empty_key_world :: world where
  "empty_key_world = plain_world\<lparr>environ := [''GOOGLE_API_KEY'' \<mapsto> []]\<rparr>"

section \<open>The demo loop\<close>

lemma seq_Returned: "snd a = Returned \<Longrightarrow> seq a b = (fst a @ fst b, snd b)"
  by (simp add: seq_def)

lemma submitted_append: "submitted (xs @ ys) = submitted xs @ submitted ys"
  by (simp add: submitted_def)

lemma interactions_append: "interactions (xs @ ys) = interactions xs @ interactions ys"
  by (simp add: interactions_def)

lemma handle_event_Inl: "handle_event ev t = Inl e \<Longrightarrow> isinstance_Exception e"
  by (auto simp: handle_event_def isinstance_Exception_def split: list.splits if_splits option.splits)

lemma async_for_recoverable:
  "recoverable en \<Longrightarrow>
   (case snd (async_for evs en t) of Done x \<Rightarrow> True | Raised e \<Rightarrow> isinstance_Exception e | Stuck \<Rightarrow> False)"
proof (induction evs arbitrary: t)
  case Nil
  then show ?case by (cases en) simp_all
next
  case (Cons ev evs)
  show ?case
  proof (cases "handle_event ev t")
    case (Inl e)
    then show ?thesis by (simp add: handle_event_Inl)
  next
    case (Inr p)
    then show ?thesis using Cons by (cases p) simp
  qed
qed

lemma submitted_async_for: "submitted (fst (async_for evs en t)) = []"
proof (induction evs arbitrary: t)
  case Nil
  show ?case by (cases en) (simp_all add: submitted_def)
next
  case (Cons ev evs)
  have pr: "submitted (map Print out) = []" for out
    by (induction out) (simp_all add: submitted_def)
  show ?case
  proof (cases "handle_event ev t")
    case (Inl e)
    then show ?thesis by (simp add: submitted_def)
  next
    case (Inr p)
    obtain out t' where p: "p = (out, t')" by (cases p)
    have "submitted (Receive ev # map Print out @ fst (async_for evs en t')) = []"
      using Cons [of t'] pr [of out] by (simp add: submitted_def)
    then show ?thesis using Inr p by simp
  qed
qed

lemma interactions_async_for:
  "interactions (fst (async_for evs en t)) = map Receive (taken evs t)"
proof (induction evs arbitrary: t)
  case Nil
  show ?case by (cases en) (simp_all add: interactions_def)
next
  case (Cons ev evs)
  have pr: "interactions (map Print out) = []" for out
    by (induction out) (simp_all add: interactions_def)
  show ?case
  proof (cases "handle_event ev t")
    case (Inl e)
    then show ?thesis by (simp add: interactions_def)
  next
    case (Inr p)
    obtain out t' where p: "p = (out, t')" by (cases p)
    have "interactions (Receive ev # map Print out @ fst (async_for evs en t')) =
          Receive ev # map Receive (taken evs t')"
      using Cons [of t'] pr [of out] by (simp add: interactions_def)
    then show ?thesis using Inr p by simp
  qed
qed

lemma call_submitted:
  "submitted (fst (call_combined_agent_async w k q)) = [user_message q]"
proof -
  let ?r = "answer w k q"
  have "submitted (fst (async_for (events ?r) (ending ?r) default_text)) = []"
    by (rule submitted_async_for)
  then show ?thesis
    by (simp add: call_combined_agent_async_def Let_def submitted_append answer_def
        user_message_def default_text_def submitted_def split: loop_end.splits)
qed

lemma call_interactions:
  "interactions (fst (call_combined_agent_async w k q)) =
     RunAsync USER_ID (SESSION_ID w) (user_message q) #
     map Receive (taken (events (answer w k q)) default_text)"
proof -
  let ?r = "answer w k q"
  have "interactions (fst (async_for (events ?r) (ending ?r) default_text)) =
        map Receive (taken (events ?r) default_text)"
    by (rule interactions_async_for)
  then show ?thesis
    by (simp add: call_combined_agent_async_def Let_def interactions_append answer_def
        user_message_def default_text_def interactions_def split: loop_end.splits)
qed

lemma call_returns:
  assumes "recoverable (ending (answer w k q))"
  shows "snd (call_combined_agent_async w k q) = Returned"
proof -
  let ?r = "answer w k q"
  have "case snd (async_for (events ?r) (ending ?r) default_text) of
          Done x \<Rightarrow> True | Raised e \<Rightarrow> isinstance_Exception e | Stuck \<Rightarrow> False"
    using assms by (rule async_for_recoverable)
  then show ?thesis
    by (auto simp: call_combined_agent_async_def Let_def answer_def user_message_def
        default_text_def split: loop_end.splits)
qed

lemma run_combined_example_trace:
  assumes "\<And>k q. recoverable (ending (answer w k q))"
  shows "run_combined_example w =
     (fst (setup_session_and_runner w) @
      [Print (Text ''=== TESTING PET STORE API ==='')] @
      fst (call_combined_agent_async w 0 (six_queries ! 0)) @
      fst (call_combined_agent_async w 1 (six_queries ! 1)) @
      fst (call_combined_agent_async w 2 (six_queries ! 2)) @
      [Print (Text (CHR 0x0A # ''=== TESTING FILESYSTEM ===''))] @
      fst (call_combined_agent_async w 3 (six_queries ! 3)) @
      fst (call_combined_agent_async w 4 (six_queries ! 4)) @
      [Print (Text (CHR 0x0A # ''=== TESTING MIXED FUNCTIONALITY ===''))] @
      fst (call_combined_agent_async w 5 (six_queries ! 5)), Returned)"
  by (simp add: run_combined_example_def six_queries_def seq_Returned call_returns assms
      setup_session_and_runner_def print_def)

lemma handle_event_isl: "isl (handle_event ev t) = body_raises ev"
  by (simp add: handle_event_def body_raises_def split: list.splits option.splits)

lemma taken_all: "list_all (\<lambda>ev. \<not> body_raises ev) evs \<Longrightarrow> taken evs t = evs"
proof (induction evs arbitrary: t)
  case Nil
  show ?case by simp
next
  case (Cons ev evs)
  from Cons.prems have "\<not> isl (handle_event ev t)" by (simp add: handle_event_isl)
  then obtain out t' where "handle_event ev t = Inr (out, t')"
    by (cases "handle_event ev t") auto
  then show ?case using Cons by simp
qed

lemma submitted_setup: "submitted (fst (setup_session_and_runner w)) = []"
  by (simp add: setup_session_and_runner_def submitted_def)

lemma submitted_print: "submitted (fst (print s)) = []"
  by (simp add: print_def submitted_def)

lemma submitted_single_print: "submitted (Print l # tr) = submitted tr"
  by (simp add: submitted_def)

lemma submitted_seq_all:
  "submitted (fst (seq_all rs)) =
   take (length (submitted (fst (seq_all rs)))) (concat (map (\<lambda>r. submitted (fst r)) rs))"
proof (induction rs)
  case Nil
  show ?case by (simp add: submitted_def)
next
  case (Cons r rs)
  show ?case
  proof (cases "snd r")
    case Returned
    then have "submitted (fst (seq_all (r # rs))) = submitted (fst r) @ submitted (fst (seq_all rs))"
      by (simp add: seq_def submitted_append)
    then show ?thesis using Cons by simp
  next
    case (Propagated e)
    then show ?thesis by (simp add: seq_def)
  next
    case Blocked
    then show ?thesis by (simp add: seq_def)
  qed
qed

lemma submitted_run_combined_example:
  "submitted (fst (run_combined_example w)) =
   take (length (submitted (fst (run_combined_example w)))) (map user_message six_queries)"
proof -
  have "concat (map (\<lambda>r. submitted (fst r))
      [setup_session_and_runner w,
       print ''=== TESTING PET STORE API ==='',
       call_combined_agent_async w 0 (six_queries ! 0),
       call_combined_agent_async w 1 (six_queries ! 1),
       call_combined_agent_async w 2 (six_queries ! 2),
       print (CHR 0x0A # ''=== TESTING FILESYSTEM ===''),
       call_combined_agent_async w 3 (six_queries ! 3),
       call_combined_agent_async w 4 (six_queries ! 4),
       print (CHR 0x0A # ''=== TESTING MIXED FUNCTIONALITY ===''),
       call_combined_agent_async w 5 (six_queries ! 5)]) = map user_message six_queries"
    by (simp add: call_submitted submitted_setup submitted_print six_queries_def)
  moreover have "run_combined_example w = seq_all
      [setup_session_and_runner w,
       print ''=== TESTING PET STORE API ==='',
       call_combined_agent_async w 0 (six_queries ! 0),
       call_combined_agent_async w 1 (six_queries ! 1),
       call_combined_agent_async w 2 (six_queries ! 2),
       print (CHR 0x0A # ''=== TESTING FILESYSTEM ===''),
       call_combined_agent_async w 3 (six_queries ! 3),
       call_combined_agent_async w 4 (six_queries ! 4),
       print (CHR 0x0A # ''=== TESTING MIXED FUNCTIONALITY ===''),
       call_combined_agent_async w 5 (six_queries ! 5)]"
    by (simp add: run_combined_example_def six_queries_def)
  ultimately show ?thesis using submitted_seq_all by metis
qed

lemma submitted_all_six:
  assumes "\<And>k q. recoverable (ending (answer w k q))"
  shows "submitted (fst (run_combined_example w)) = map user_message six_queries"
  by (simp add: run_combined_example_trace [OF assms] submitted_append call_submitted
      submitted_setup submitted_single_print six_queries_def)

lemma plain_recoverable: "recoverable (ending (answer plain_world k q))"
  by (simp add: answer_def plain_world_def)

lemma agent_loop_recoverable:
  assumes "recoverable (ending (answer w k q))"
  shows "case snd (agent_loop w k q) of
           Done x \<Rightarrow> True | Raised e \<Rightarrow> isinstance_Exception e | Stuck \<Rightarrow> False"
  unfolding agent_loop_def using assms by (rule async_for_recoverable)

lemma call_shape:
  assumes "recoverable (ending (answer w k q))"
  shows "call_combined_agent_async w k q =
           (call_opening w q @ fst (agent_loop w k q) @ call_closing (snd (agent_loop w k q)), Returned)"
  using agent_loop_recoverable [OF assms]
  by (auto simp: call_combined_agent_async_def Let_def answer_def user_message_def
      default_text_def call_opening_def agent_loop_def split: loop_end.splits)

lemma interactions_setup: "interactions (fst (setup_session_and_runner w)) = []"
  by (simp add: setup_session_and_runner_def interactions_def)

lemma interactions_Cons_Print: "interactions (Print l # tr) = interactions tr"
  by (simp add: interactions_def)

text \<open>
  C1.  The claim counts seven prompts.  In a world whose runner answers every query with
  an empty run, the runner is handed six messages.
\<close>

theorem seven_prompts_counterexample:
  "length (submitted (fst (run_combined_example plain_world))) = 6 \<and>
   length (submitted (fst (run_combined_example plain_world))) \<noteq> 7"
  by (simp add: submitted_all_six plain_recoverable six_queries_def)

text \<open>
  C1, amended.  There are six literal queries.  When every run ends, by exhaustion or by
  an exception that derives from \<open>Exception\<close>, the trace of \<open>run_combined_example\<close>
  is the set-up, then for each of the six queries in the order of the source the block of
  actions of its call (with the three headings in between), and each block is: the two
  prints and the submission, the events consumed with what is printed for them, the
  call_closing prints.  The messages handed to the runner are the six queries, in order.
\<close>

theorem six_prompts_in_order:
  assumes "\<And>k q. recoverable (ending (answer w k q))"
  shows "run_combined_example w =
     (fst (setup_session_and_runner w) @
      [Print (Text ''=== TESTING PET STORE API ==='')] @
      fst (call_combined_agent_async w 0 (six_queries ! 0)) @
      fst (call_combined_agent_async w 1 (six_queries ! 1)) @
      fst (call_combined_agent_async w 2 (six_queries ! 2)) @
      [Print (Text (CHR 0x0A # ''=== TESTING FILESYSTEM ===''))] @
      fst (call_combined_agent_async w 3 (six_queries ! 3)) @
      fst (call_combined_agent_async w 4 (six_queries ! 4)) @
      [Print (Text (CHR 0x0A # ''=== TESTING MIXED FUNCTIONALITY ===''))] @
      fst (call_combined_agent_async w 5 (six_queries ! 5)), Returned) \<and>
     (\<forall>k q. call_combined_agent_async w k q =
        (call_opening w q @ fst (agent_loop w k q) @ call_closing (snd (agent_loop w k q)), Returned)) \<and>
     submitted (fst (run_combined_example w)) = map user_message six_queries \<and>
     length six_queries = 6"
proof -
  have "length six_queries = 6" by (simp add: six_queries_def)
  then show ?thesis
    using run_combined_example_trace [OF assms] call_shape [OF assms] submitted_all_six [OF assms]
    by blast
qed

theorem six_prompts_in_order_witness:
  "(\<forall>k q. recoverable (ending (answer plain_world k q))) \<and>
   submitted (fst (run_combined_example plain_world)) = map user_message six_queries \<and>
   snd (run_combined_example plain_world) = Returned \<and>
   call_combined_agent_async plain_world 2 ''Get details for pet ID 456'' =
     (call_opening plain_world ''Get details for pet ID 456'' @
      [Print (FinalResponseLine default_text),
       Print (Text (replicate 50 CHR ''-''))], Returned)"
proof -
  have h: "\<And>k q. recoverable (ending (answer plain_world k q))"
    by (simp add: answer_def plain_world_def)
  have l: "agent_loop plain_world 2 ''Get details for pet ID 456'' = ([], Done default_text)"
    by (simp add: agent_loop_def answer_def plain_world_def)
  note T = six_prompts_in_order [of plain_world, OF h]
  from T have a: "submitted (fst (run_combined_example plain_world)) = map user_message six_queries"
    by blast
  from T have "\<exists>tr. run_combined_example plain_world = (tr, Returned)"
    by blast
  then have b: "snd (run_combined_example plain_world) = Returned"
    by auto
  from T have "call_combined_agent_async plain_world 2 ''Get details for pet ID 456'' =
      (call_opening plain_world ''Get details for pet ID 456'' @
       fst (agent_loop plain_world 2 ''Get details for pet ID 456'') @
       call_closing (snd (agent_loop plain_world 2 ''Get details for pet ID 456'')), Returned)"
    by blast
  then have c: "call_combined_agent_async plain_world 2 ''Get details for pet ID 456'' =
     (call_opening plain_world ''Get details for pet ID 456'' @
      [Print (FinalResponseLine default_text),
       Print (Text (replicate 50 CHR ''-''))], Returned)"
    by (simp only: l fst_conv snd_conv call_closing.simps append_Nil)
  from h a b c show ?thesis by blast
qed

text \<open>
  C3.  Let every run end by exhaustion or by an exception deriving from \<open>Exception\<close>
  (raised by the runner, or by the body of the loop).  Then the demo returns and all six
  queries are submitted, each once; and a call whose loop raised \<open>e\<close> has caught it:
  \<open>e\<close> derives from \<open>Exception\<close>, the call has submitted its query once, printed the
  error line and the traceback after what it had consumed, printed the dashes, and
  returned, so that the next statement of the demo runs.
\<close>

theorem generic_exception_does_not_abort:
  assumes "\<And>k q. recoverable (ending (answer w k q))"
  shows "snd (run_combined_example w) = Returned \<and>
     submitted (fst (run_combined_example w)) = map user_message six_queries \<and>
     (\<forall>k q e. snd (agent_loop w k q) = Raised e \<longrightarrow>
        isinstance_Exception e \<and>
        submitted (fst (call_combined_agent_async w k q)) = [user_message q] \<and>
        call_combined_agent_async w k q =
          (call_opening w q @ fst (agent_loop w k q) @
           [Print (ErrorLine (exc_str e)), PrintExc, Print (Text (replicate 50 CHR ''-''))],
           Returned))"
proof -
  have a: "snd (run_combined_example w) = Returned"
    by (simp add: run_combined_example_trace [OF assms])
  have b: "submitted (fst (run_combined_example w)) = map user_message six_queries"
    by (rule submitted_all_six [OF assms])
  have c: "isinstance_Exception e \<and>
        submitted (fst (call_combined_agent_async w k q)) = [user_message q] \<and>
        call_combined_agent_async w k q =
          (call_opening w q @ fst (agent_loop w k q) @
           [Print (ErrorLine (exc_str e)), PrintExc, Print (Text (replicate 50 CHR ''-''))],
           Returned)"
    if r: "snd (agent_loop w k q) = Raised e" for k q e
  proof -
    have "isinstance_Exception e"
      using agent_loop_recoverable [OF assms, of k q] r by simp
    moreover have "call_combined_agent_async w k q =
          (call_opening w q @ fst (agent_loop w k q) @
           [Print (ErrorLine (exc_str e)), PrintExc, Print (Text (replicate 50 CHR ''-''))],
           Returned)"
      using call_shape [OF assms, of k q] r by simp
    ultimately show ?thesis using call_submitted [of w k q] by blast
  qed
  from a b c show ?thesis by blast
qed

theorem generic_exception_does_not_abort_witness:
  "(\<forall>k q. recoverable (ending (answer faulty_world k q))) \<and>
   snd (agent_loop faulty_world 1 (six_queries ! 1)) =
     Raised (Exc OtherException ''connection reset'') \<and>
   snd (run_combined_example faulty_world) = Returned \<and>
   submitted (fst (run_combined_example faulty_world)) = map user_message six_queries \<and>
   call_combined_agent_async faulty_world 1 (six_queries ! 1) =
     (call_opening faulty_world (six_queries ! 1) @
      [Receive (Event [FunctionCall ''post_users'' ''{}''] [] False None),
       Print (AgentActionLine ''post_users'' ''{}''),
       Print (ErrorLine ''connection reset''), PrintExc,
       Print (Text (replicate 50 CHR ''-''))], Returned)"
proof -
  have h: "\<And>k q. recoverable (ending (answer faulty_world k q))"
    by (simp add: answer_def faulty_world_def plain_world_def isinstance_Exception_def)
  have l: "agent_loop faulty_world 1 (six_queries ! 1) =
      ([Receive (Event [FunctionCall ''post_users'' ''{}''] [] False None),
        Print (AgentActionLine ''post_users'' ''{}'')],
       Raised (Exc OtherException ''connection reset''))"
    by (simp add: agent_loop_def answer_def faulty_world_def plain_world_def handle_event_def)
  show ?thesis
    using generic_exception_does_not_abort [of faulty_world, OF h] h l by simp
qed

text \<open>
  C7.  Whatever the runner answers, a call hands the runner one message: the content of
  role \<open>user\<close> whose only part has the query as its text, character for character.  The
  messages the demo hands over are the first of the six literal queries, in order (all
  six unless a run blocks or lets an exception out).
\<close>

theorem prompt_passed_unmodified:
  "submitted (fst (call_combined_agent_async w k query)) =
     [Content ''user'' (Some [Part (Some query)])] \<and>
   interactions (fst (call_combined_agent_async w k query)) =
     RunAsync USER_ID (SESSION_ID w) (Content ''user'' (Some [Part (Some query)])) #
     map Receive (taken (events (answer w k query)) default_text) \<and>
   submitted (fst (run_combined_example w)) =
     take (length (submitted (fst (run_combined_example w))))
       (map (\<lambda>q. Content ''user'' (Some [Part (Some q)])) six_queries)"
  using call_submitted [of w k query] call_interactions [of w k query]
    submitted_run_combined_example [of w]
  by (simp add: user_message_def [abs_def])

text \<open>
  C8.  Let every run end by exhaustion or by an exception deriving from \<open>Exception\<close>.
  The submissions and the receptions of events in the trace of the demo are then six
  consecutive blocks, one for each query in order: the submission of the query, followed
  by the events of its own run that the loop consumed.  So every event of a run is
  received after the submission of its query and before the submission of the next one.
  The events consumed are all the events of the run when the body of the loop raises for
  none of them.
\<close>

theorem prompts_do_not_overlap:
  assumes "\<And>k q. recoverable (ending (answer w k q))"
  shows "interactions (fst (run_combined_example w)) =
     concat (map (\<lambda>(k, q). RunAsync USER_ID (SESSION_ID w) (user_message q) #
                            map Receive (taken (events (answer w k q)) default_text))
       (zip [0, 1, 2, 3, 4, 5] six_queries)) \<and>
     (\<forall>k q. list_all (\<lambda>ev. \<not> body_raises ev) (events (answer w k q)) \<longrightarrow>
        taken (events (answer w k q)) default_text = events (answer w k q))"
proof -
  have "interactions (fst (run_combined_example w)) =
     concat (map (\<lambda>(k, q). RunAsync USER_ID (SESSION_ID w) (user_message q) #
                            map Receive (taken (events (answer w k q)) default_text))
       (zip [0, 1, 2, 3, 4, 5] six_queries))"
    by (simp add: run_combined_example_trace [OF assms] interactions_append call_interactions
        interactions_setup interactions_Cons_Print six_queries_def)
  then show ?thesis by (simp add: taken_all)
qed

theorem prompts_do_not_overlap_witness:
  "(\<forall>k q. recoverable (ending (answer faulty_world k q))) \<and>
   list_all (\<lambda>ev. \<not> body_raises ev) (events (answer faulty_world 0 (six_queries ! 0))) \<and>
   interactions (fst (run_combined_example faulty_world)) =
     [RunAsync USER_ID (SESSION_ID faulty_world) (user_message (six_queries ! 0)),
      Receive (final_event (Some '' done '')),
      RunAsync USER_ID (SESSION_ID faulty_world) (user_message (six_queries ! 1)),
      Receive (Event [FunctionCall ''post_users'' ''{}''] [] False None),
      RunAsync USER_ID (SESSION_ID faulty_world) (user_message (six_queries ! 2)),
      Receive (final_event (Some '' done '')),
      RunAsync USER_ID (SESSION_ID faulty_world) (user_message (six_queries ! 3)),
      Receive (final_event None),
      RunAsync USER_ID (SESSION_ID faulty_world) (user_message (six_queries ! 4)),
      Receive (final_event (Some '' done '')),
      RunAsync USER_ID (SESSION_ID faulty_world) (user_message (six_queries ! 5)),
      Receive (final_event (Some '' done ''))]"
proof -
  have h: "\<And>k q. recoverable (ending (answer faulty_world k q))"
    by (simp add: answer_def faulty_world_def plain_world_def isinstance_Exception_def)
  have q: "list_all (\<lambda>ev. \<not> body_raises ev) (events (answer faulty_world 0 (six_queries ! 0)))"
    by (simp add: answer_def faulty_world_def plain_world_def body_raises_def handle_event_def
        final_event_def)
  have t: "taken (events (answer faulty_world k q)) default_text =
      (if k = 1 then [Event [FunctionCall ''post_users'' ''{}''] [] False None]
       else if k = 3 then [final_event None]
       else [final_event (Some '' done '')])" for k q
    by (simp add: answer_def faulty_world_def plain_world_def handle_event_def final_event_def)
  show ?thesis
    using prompts_do_not_overlap [of faulty_world, OF h] h q
    by (simp add: t six_queries_def)
qed

text \<open>
  C9.  The agent is built with the list of the two toolsets: first the OpenAPI toolset
  made from the embedded document, read as JSON, then the MCP toolset that starts the
  filesystem server; nothing else is in the list.
\<close>

theorem root_agent_two_toolsets:
  "agent_tools (root_agent w) = [users_toolset, filesystem_toolset w] \<and>
   length (agent_tools (root_agent w)) = 2 \<and>
   users_toolset = OpenAPIToolset openapi_spec_string ''json'' \<and>
   filesystem_toolset w =
     MCPToolset ''npx''
       [''-y'', ''@modelcontextprotocol/server-filesystem'', abspath w (TARGET_FOLDER_PATH w)]"
  by (simp add: root_agent_def users_toolset_def filesystem_toolset_def)

text \<open>
  C10.  When \<^verbatim>\<open>GOOGLE_API_KEY\<close> is absent from the environment or is the empty string,
  the module raises the \<open>ValueError\<close> with the same message right after reading the
  variable: the trace of the whole program is the loading of the \<^verbatim>\<open>.env\<close> file and
  that one reading.
\<close>

theorem absent_or_empty_key_aborts:
  assumes "environ w ''GOOGLE_API_KEY'' = None \<or> environ w ''GOOGLE_API_KEY'' = Some []"
  shows "module_level w =
     ([LoadDotenv, Getenv ''GOOGLE_API_KEY''], Propagated (Exc ValueError missing_key_message)) \<and>
   script w =
     ([LoadDotenv, Getenv ''GOOGLE_API_KEY''], Propagated (Exc ValueError missing_key_message))"
  using assms by (auto simp: module_level_def script_def seq_def)

theorem absent_or_empty_key_aborts_witness:
  "environ empty_key_world ''GOOGLE_API_KEY'' = Some [] \<and>
   script empty_key_world =
     ([LoadDotenv, Getenv ''GOOGLE_API_KEY''], Propagated (Exc ValueError missing_key_message))"
proof -
  have h: "environ empty_key_world ''GOOGLE_API_KEY'' = Some []"
    by (simp add: empty_key_world_def plain_world_def)
  then have "environ empty_key_world ''GOOGLE_API_KEY'' = None \<or>
      environ empty_key_world ''GOOGLE_API_KEY'' = Some []" by simp
  from absent_or_empty_key_aborts [OF this] h show ?thesis by simp
qed

text \<open>
  C2.  The claim says that no such error is raised when the variable is set.  With the
  variable set to the empty string the program raises it.
\<close>

theorem set_key_counterexample:
  "environ empty_key_world ''GOOGLE_API_KEY'' \<noteq> None \<and>
   snd (script empty_key_world) = Propagated (Exc ValueError missing_key_message)"
  by (simp add: empty_key_world_def plain_world_def script_def seq_def module_level_def)

text \<open>
  C2, amended.  When \<^verbatim>\<open>GOOGLE_API_KEY\<close> is unset, the program stops with the
  \<open>ValueError\<close> and its message after reading the variable: no toolset, agent, session
  service or runner has been constructed and no query submitted.  When the variable is set
  to a string that is not empty, the start of the module raises nothing: it stores the key
  back, builds the two toolsets and the agent, and returns.
\<close>

theorem credential_check:
  "(environ w ''GOOGLE_API_KEY'' = None \<longrightarrow>
      script w =
        ([LoadDotenv, Getenv ''GOOGLE_API_KEY''],
         Propagated (Exc ValueError missing_key_message))) \<and>
   (\<forall>key. environ w ''GOOGLE_API_KEY'' = Some key \<and> key \<noteq> [] \<longrightarrow>
      module_level w =
        ([LoadDotenv, Getenv ''GOOGLE_API_KEY'', Setenv ''GOOGLE_API_KEY'' key,
          Construct (ToolsetObj users_toolset),
          Construct (ToolsetObj (filesystem_toolset w)),
          Construct (AgentObj (root_agent w))], Returned))"
  by (auto simp: module_level_def script_def seq_def)

theorem credential_check_witness:
  "environ unset_world ''GOOGLE_API_KEY'' = None \<and>
   script unset_world =
     ([LoadDotenv, Getenv ''GOOGLE_API_KEY''], Propagated (Exc ValueError missing_key_message)) \<and>
   environ plain_world ''GOOGLE_API_KEY'' = Some ''secret'' \<and>
   module_level plain_world =
     ([LoadDotenv, Getenv ''GOOGLE_API_KEY'', Setenv ''GOOGLE_API_KEY'' ''secret'',
       Construct (ToolsetObj users_toolset),
       Construct (ToolsetObj (filesystem_toolset plain_world)),
       Construct (AgentObj (root_agent plain_world))], Returned)"
proof -
  have u: "environ unset_world ''GOOGLE_API_KEY'' = None"
    by (simp add: unset_world_def plain_world_def)
  have p: "environ plain_world ''GOOGLE_API_KEY'' = Some ''secret''"
    by (simp add: plain_world_def)
  show ?thesis
    using credential_check [of unset_world] credential_check [of plain_world] u p by simp
qed

section \<open>The embedded document\<close>

lemma member_tokens_pair: "member_tokens (k, v) = TString k # Colon # tokens_of v"
  by (simp add: member_tokens_def)

lemma tokens_of_JObject:
  "tokens_of (JObject ms) = LBrace # separated (map member_tokens ms) @ [RBrace]"
  by (simp add: member_tokens_def [abs_def] comp_def case_prod_beta)

lemma tokens_of_start:
  "\<exists>t ts. tokens_of v = t # ts \<and> t \<noteq> RBracket \<and> t \<noteq> RBrace"
  by (cases v) simp_all

lemma separated_start:
  assumes "xs \<noteq> []" and "hd xs = t # ts"
  shows "\<exists>us. separated xs = t # us"
proof (cases xs)
  case Nil
  with assms show ?thesis by simp
next
  case (Cons x ys)
  with assms show ?thesis by (cases ys) simp_all
qed

lemma parse_elements_separated:
  assumes "\<And>v n r. v \<in> set vs \<Longrightarrow> length (tokens_of v) \<le> n \<Longrightarrow>
             parse_value n (tokens_of v @ r) = Some (v, r)"
    and "vs \<noteq> []"
    and "length (separated (map tokens_of vs)) < n"
  shows "parse_elements n (separated (map tokens_of vs) @ RBracket # r) = Some (vs, r)"
  using assms
proof (induction vs arbitrary: n)
  case Nil
  then show ?case by simp
next
  case (Cons v vs)
  from Cons.prems(3) obtain m where n: "n = Suc m" by (cases n) auto
  have pv: "length (tokens_of v) \<le> k \<Longrightarrow> parse_value k (tokens_of v @ r') = Some (v, r')" for k r'
    using Cons.prems(1) by simp
  show ?case
  proof (cases vs)
    case Nil
    with Cons.prems(3) n have "length (tokens_of v) \<le> m" by simp
    then have "parse_value m (tokens_of v @ RBracket # r) = Some (v, RBracket # r)"
      by (rule pv)
    with Nil n show ?thesis by simp
  next
    case (Cons v' vs')
    let ?rest = "separated (map tokens_of (v' # vs'))"
    from Cons Cons.prems(3) n have len: "length (tokens_of v) + 1 + length ?rest < Suc m"
      by simp
    then have "length (tokens_of v) \<le> m" by simp
    then have a: "parse_value m (tokens_of v @ Comma # ?rest @ RBracket # r) =
        Some (v, Comma # ?rest @ RBracket # r)"
      by (rule pv)
    have "parse_elements m (?rest @ RBracket # r) = Some (v' # vs', r)"
    proof -
      have "parse_elements m (separated (map tokens_of vs) @ RBracket # r) = Some (vs, r)"
      proof (rule Cons.IH)
        show "\<And>v n r. v \<in> set vs \<Longrightarrow> length (tokens_of v) \<le> n \<Longrightarrow>
             parse_value n (tokens_of v @ r) = Some (v, r)"
          using Cons.prems(1) by simp
        show "vs \<noteq> []" using Cons by simp
        show "length (separated (map tokens_of vs)) < m" using len Cons by simp
      qed
      then show ?thesis using Cons by simp
    qed
    with a Cons n show ?thesis by simp
  qed
qed

lemma parse_members_separated:
  assumes "\<And>k v n r. (k, v) \<in> set ms \<Longrightarrow> length (tokens_of v) \<le> n \<Longrightarrow>
             parse_value n (tokens_of v @ r) = Some (v, r)"
    and "ms \<noteq> []"
    and "length (separated (map member_tokens ms)) < n"
  shows "parse_members n (separated (map member_tokens ms) @ RBrace # r) = Some (ms, r)"
  using assms
proof (induction ms arbitrary: n)
  case Nil
  then show ?case by simp
next
  case (Cons kv ms)
  obtain k v where kv: "kv = (k, v)" by (cases kv)
  from Cons.prems(3) obtain m where n: "n = Suc m" by (cases n) auto
  have pv: "length (tokens_of v) \<le> j \<Longrightarrow> parse_value j (tokens_of v @ r') = Some (v, r')" for j r'
    using Cons.prems(1) [of k v] kv by simp
  show ?case
  proof (cases ms)
    case Nil
    with Cons.prems(3) n kv have "length (tokens_of v) \<le> m" by (simp add: member_tokens_pair)
    then have "parse_value m (tokens_of v @ RBrace # r) = Some (v, RBrace # r)"
      by (rule pv)
    with Nil n kv show ?thesis by (simp add: member_tokens_pair)
  next
    case (Cons kv' ms')
    let ?rest = "separated (map member_tokens (kv' # ms'))"
    from Cons Cons.prems(3) n kv have len: "length (tokens_of v) + 3 + length ?rest < Suc m"
      by (simp add: member_tokens_pair)
    then have "length (tokens_of v) \<le> m" by simp
    then have a: "parse_value m (tokens_of v @ Comma # ?rest @ RBrace # r) =
        Some (v, Comma # ?rest @ RBrace # r)"
      by (rule pv)
    have "parse_members m (?rest @ RBrace # r) = Some (kv' # ms', r)"
    proof -
      have "parse_members m (separated (map member_tokens ms) @ RBrace # r) = Some (ms, r)"
      proof (rule Cons.IH)
        show "\<And>k v n r. (k, v) \<in> set ms \<Longrightarrow> length (tokens_of v) \<le> n \<Longrightarrow>
             parse_value n (tokens_of v @ r) = Some (v, r)"
          using Cons.prems(1) by (meson list.set_intros(2))
        show "ms \<noteq> []" using Cons by simp
        show "length (separated (map member_tokens ms)) < m" using len Cons by simp
      qed
      then show ?thesis using Cons by simp
    qed
    with a Cons n kv show ?thesis by (simp add: member_tokens_pair)
  qed
qed

lemma parse_value_tokens_of:
  "length (tokens_of v) \<le> n \<Longrightarrow> parse_value n (tokens_of v @ r) = Some (v, r)"
proof (induction v arbitrary: n r)
  case JNull
  then show ?case by (cases n) simp_all
next
  case (JBool b)
  then show ?case by (cases n) simp_all
next
  case (JNumber w)
  then show ?case by (cases n) simp_all
next
  case (JString s)
  then show ?case by (cases n) simp_all
next
  case (JArray vs)
  from JArray.prems obtain m where n: "n = Suc m" by (cases n) auto
  show ?case
  proof (cases vs)
    case Nil
    with n show ?thesis by simp
  next
    case (Cons v vs')
    obtain t ts where st: "tokens_of v = t # ts" "t \<noteq> RBracket"
      using tokens_of_start [of v] by blast
    from Cons st obtain us where us: "separated (map tokens_of vs) = t # us"
      using separated_start [of "map tokens_of vs" t ts] by auto
    have "parse_elements m (separated (map tokens_of vs) @ RBracket # r) = Some (vs, r)"
    proof (rule parse_elements_separated)
      show "\<And>v n r. v \<in> set vs \<Longrightarrow> length (tokens_of v) \<le> n \<Longrightarrow>
             parse_value n (tokens_of v @ r) = Some (v, r)"
        using JArray.IH by blast
      show "vs \<noteq> []" using Cons by simp
      show "length (separated (map tokens_of vs)) < m" using JArray.prems n by simp
    qed
    then have "parse_elements m (t # us @ RBracket # r) = Some (vs, r)"
      using us by simp
    with n us st(2) show ?thesis by (cases t) simp_all
  qed
next
  case (JObject ms)
  from JObject.prems obtain m where n: "n = Suc m" by (cases n) auto
  show ?case
  proof (cases ms)
    case Nil
    with n show ?thesis by simp
  next
    case (Cons kv ms')
    obtain k v where kv: "kv = (k, v)" by (cases kv)
    from Cons kv obtain us where us: "separated (map member_tokens ms) = TString k # us"
      using separated_start [of "map member_tokens ms" "TString k" "Colon # tokens_of v"]
      by (auto simp: member_tokens_pair)
    have "parse_members m (separated (map member_tokens ms) @ RBrace # r) = Some (ms, r)"
    proof (rule parse_members_separated)
      show "\<And>k v n r. (k, v) \<in> set ms \<Longrightarrow> length (tokens_of v) \<le> n \<Longrightarrow>
             parse_value n (tokens_of v @ r) = Some (v, r)"
        using JObject.IH by fastforce
      show "ms \<noteq> []" using Cons by simp
      show "length (separated (map member_tokens ms)) < m"
        using JObject.prems n by (simp add: tokens_of_JObject del: tokens_of.simps)
    qed
    then have "parse_members m (TString k # us @ RBrace # r) = Some (ms, r)"
      by (simp add: us)
    moreover have "tokens_of (JObject ms) @ r = LBrace # TString k # us @ RBrace # r"
      by (simp add: tokens_of_JObject us del: tokens_of.simps)
    ultimately show ?thesis using n by simp
  qed
qed

lemma parse_json_tokens_of:
  assumes "scan Top s = tokens_of v"
  shows "parse_json s = Some v"
proof -
  have "parse_value (length (tokens_of v)) (tokens_of v @ []) = Some (v, [])"
    by (rule parse_value_tokens_of) simp
  then show ?thesis using assms by (simp add: parse_json_def)
qed

lemma schema_names_openapi_doc:
  "schema_names openapi_doc =
     [''User'', ''Resource'', ''Support'', ''UsersListResponse'', ''SingleUserResponse'',
      ''ResourcesListResponse'', ''SingleResourceResponse'', ''CreateUserRequest'',
      ''CreateUserResponse'', ''UpdateUserRequest'', ''UpdateUserResponse'',
      ''RegisterRequest'', ''RegisterResponse'', ''LoginRequest'', ''LoginResponse'',
      ''ErrorResponse'']"
  by (simp add: openapi_doc_def schema_names_def schemas_def)

lemma ref_values_openapi_doc:
  "ref_values openapi_doc =
     [JString ''#/components/schemas/UsersListResponse'',
      JString ''#/components/schemas/CreateUserRequest'',
      JString ''#/components/schemas/CreateUserResponse'',
      JString ''#/components/schemas/SingleUserResponse'',
      JString ''#/components/schemas/ErrorResponse'',
      JString ''#/components/schemas/UpdateUserRequest'',
      JString ''#/components/schemas/UpdateUserResponse'',
      JString ''#/components/schemas/UpdateUserRequest'',
      JString ''#/components/schemas/UpdateUserResponse'',
      JString ''#/components/schemas/ResourcesListResponse'',
      JString ''#/components/schemas/SingleResourceResponse'',
      JString ''#/components/schemas/ErrorResponse'',
      JString ''#/components/schemas/RegisterRequest'',
      JString ''#/components/schemas/RegisterResponse'',
      JString ''#/components/schemas/ErrorResponse'',
      JString ''#/components/schemas/LoginRequest'',
      JString ''#/components/schemas/LoginResponse'',
      JString ''#/components/schemas/ErrorResponse'',
      JString ''#/components/schemas/UsersListResponse'',
      JString ''#/components/schemas/User'',
      JString ''#/components/schemas/Support'',
      JString ''#/components/schemas/User'',
      JString ''#/components/schemas/Support'',
      JString ''#/components/schemas/Resource'',
      JString ''#/components/schemas/Support'',
      JString ''#/components/schemas/Resource'',
      JString ''#/components/schemas/Support'']"
  by (simp add: openapi_doc_def)

text \<open>
  No line of the embedded document holds a backslash: no string in it has an escape, and
  each string token is the string it denotes.
\<close>

lemma openapi_spec_lines_no_escape:
  "list_all (\<lambda>l. CHR 0x5C \<notin> set l) openapi_spec_lines"
  by (simp add: openapi_spec_lines_def)

text \<open>
  The scanner, run on the embedded string, gives the tokens of \<open>openapi_doc\<close>; with
  the round trip of the parser the string is JSON text for that value.
\<close>

lemma scan_openapi_spec_string: "scan Top openapi_spec_string = tokens_of openapi_doc"
  by (simp add: openapi_spec_string_def openapi_spec_lines_def openapi_doc_def
      tokens_of_JObject member_tokens_pair step_top_def is_ws_def is_word_char_def
      word_token_def valid_number_def valid_int_def valid_frac_def valid_exp_def
      digits1_def is_digit_def is_hex_def is_simple_escape_def
      del: tokens_of.simps(6))

lemma openapi_spec_string_parses: "parse_json openapi_spec_string = Some openapi_doc"
  using scan_openapi_spec_string by (rule parse_json_tokens_of)

lemma paths_openapi_doc:
  "map_option member_names (field ''paths'' openapi_doc) =
     Some [''/users'', ''/users/{id}'', ''/unknown'', ''/unknown/{id}'', ''/register'',
           ''/login'', ''/users/{delay}'']"
  by (simp add: openapi_doc_def)

lemma servers_openapi_doc:
  "map_option (\<lambda>s. map (field ''url'') (elements s)) (field ''servers'' openapi_doc) =
     Some [Some (JString ''https://reqres.in/api'')]"
  by (simp add: openapi_doc_def)

text \<open>
  C5.  The embedded string parses to \<open>openapi_doc\<close>.  That document has 27 members
  named \<^verbatim>\<open>$ref\<close>, and the value of each is a string \<^verbatim>\<open>#/components/schemas/\<close>
  followed by the name of a schema that the document defines under
  \<^verbatim>\<open>components\<close>, \<^verbatim>\<open>schemas\<close>.
\<close>

theorem every_ref_resolves:
  "parse_json openapi_spec_string = Some openapi_doc \<and>
   list_all (resolves_in (schema_names openapi_doc)) (ref_values openapi_doc) \<and>
   length (ref_values openapi_doc) = 27"
  by (simp add: openapi_spec_string_parses schema_names_openapi_doc ref_values_openapi_doc
      resolves_in_def)

text \<open>
  C6.  The embedded string parses to \<open>openapi_doc\<close>.  The member \<^verbatim>\<open>paths\<close> of
  that document is an object whose member names are the seven paths of the claim, each
  once; the member \<^verbatim>\<open>servers\<close> is an array of one object, whose \<^verbatim>\<open>url\<close> is
  \<^verbatim>\<open>https://reqres.in/api\<close>.
\<close>

theorem openapi_paths_and_server:
  "parse_json openapi_spec_string = Some openapi_doc \<and>
   map_option member_names (field ''paths'' openapi_doc) =
     Some [''/users'', ''/users/{id}'', ''/unknown'', ''/unknown/{id}'', ''/register'',
           ''/login'', ''/users/{delay}''] \<and>
   map_option (\<lambda>p. set (member_names p)) (field ''paths'' openapi_doc) =
     Some {''/users'', ''/users/{id}'', ''/unknown'', ''/unknown/{id}'', ''/register'',
           ''/login'', ''/users/{delay}''} \<and>
   map_option (\<lambda>s. map (field ''url'') (elements s)) (field ''servers'' openapi_doc) =
     Some [Some (JString ''https://reqres.in/api'')]"
proof -
  have "map_option (\<lambda>p. set (member_names p)) (field ''paths'' openapi_doc) =
      map_option set (map_option member_names (field ''paths'' openapi_doc))"
    by (simp add: option.map_comp comp_def)
  also have "\<dots> = Some {''/users'', ''/users/{id}'', ''/unknown'', ''/unknown/{id}'',
      ''/register'', ''/login'', ''/users/{delay}''}"
    by (simp only: paths_openapi_doc option.map list.set)
  finally show ?thesis
    using openapi_spec_string_parses paths_openapi_doc servers_openapi_doc by blast
qed

end
